theory Spec2Isabelle
  imports Complex_Main "HOL-Library.AList"
begin

section \<open>The hyper-watchdog chaincode: data model\<close>

text \<open>
  A shallow embedding of \<^verbatim>\<open>chaincode/datamodels.go\<close>, the policy file beside it,
  \<^verbatim>\<open>chaincode/utils.go\<close> and \<^verbatim>\<open>chaincode/smartcontract.go\<close>.

  Go errors are strings built by \<^verbatim>\<open>fmt.Errorf\<close>; the model keeps one constructor per
  failure site kind and drops the message prefixes that callers wrap around an error.
\<close>

datatype error =
    AlreadyExists | NotFound | IdMismatch | DecodeError | HashError
  | IntegrityMismatch | PolicyNotFound | PolicyNotApplied | ExpiryNotComputed
  | NotYetExpired | NoChange | SizeMismatch | ParseError | FutureDateRejected
  | EmptyHistory | MarshalError | DurationError

subsection \<open>float64\<close>

text \<open>
  A \<^verbatim>\<open>float64\<close> is a sign and a magnitude (so that \<open>-0\<close> and \<open>+0\<close> are two values,
  as they are for \<^verbatim>\<open>json.Marshal\<close>), an infinity or NaN. Magnitudes are non-negative.
  Arithmetic is IEEE 754 binary64 with round-to-nearest-even: the exact result is rounded
  by \<open>round64\<close>. Division by zero follows IEEE 754 as well (the Go compiler emits the
  hardware division and no check): \<open>0 / 0\<close> is NaN and \<open>x / 0\<close> an infinity.
\<close>

datatype float64 = Finite bool real | Infinity bool | NaN

definition valof :: "bool \<Rightarrow> real \<Rightarrow> real" where
  "valof s m = (if s then - m else m)"

definition expo :: "real \<Rightarrow> int" where
  "expo m = \<lfloor>log 2 m\<rfloor>"

definition round_even :: "real \<Rightarrow> int" where
  "round_even q =
     (let f = \<lfloor>q\<rfloor>; d = q - of_int f
      in if d < 1 / 2 then f else if 1 / 2 < d then f + 1 else if even f then f else f + 1)"

definition round_to :: "int \<Rightarrow> real \<Rightarrow> real" where
  \<comment> \<open>the multiple of \<open>2^e\<close> nearest to \<open>m\<close>, ties to even\<close>
  "round_to e m = of_int (round_even (m / 2 powr of_int e)) * 2 powr of_int e"

definition round64 :: "bool \<Rightarrow> real \<Rightarrow> float64" where
  \<comment> \<open>53 significant bits, exponents from -1022 (subnormals below), overflow to infinity\<close>
  "round64 s m =
     (if m = 0 then Finite s 0
      else (let y = round_to (max (expo m) (- 1022) - 52) m
            in if 2 ^ 1024 \<le> y then Infinity s else Finite s y))"

text \<open>\<^verbatim>\<open>math.Abs\<close>.\<close>

fun fabs :: "float64 \<Rightarrow> float64" where
  "fabs (Finite s m) = Finite False m"
| "fabs (Infinity s) = Infinity False"
| "fabs NaN = NaN"

text \<open>
  \<^verbatim>\<open>math.Pow(x, 2)\<close>: NaN for NaN, 0 for a zero, \<open>+Inf\<close> for an infinity; otherwise the
  library squares the fraction of \<^verbatim>\<open>Frexp(x)\<close> (one rounding to 53 bits) and scales the
  result with \<^verbatim>\<open>Ldexp\<close> (a second rounding, when the square is subnormal).
\<close>

fun pow2 :: "float64 \<Rightarrow> float64" where
  "pow2 NaN = NaN"
| "pow2 (Infinity s) = Infinity False"
| "pow2 (Finite s m) =
     (if m = 0 then Finite False 0
      else round64 False (round_to (expo (m * m) - 52) (m * m)))"

text \<open>The operators \<^verbatim>\<open>+\<close>, \<^verbatim>\<open>/\<close> and \<^verbatim>\<open>>\<close> on float64.\<close>

fun fadd :: "float64 \<Rightarrow> float64 \<Rightarrow> float64" where
  "fadd NaN b = NaN"
| "fadd a NaN = NaN"
| "fadd (Infinity s) (Infinity t) = (if s = t then Infinity s else NaN)"
| "fadd (Infinity s) (Finite t n) = Infinity s"
| "fadd (Finite s m) (Infinity t) = Infinity t"
| "fadd (Finite s m) (Finite t n) =
     (let r = valof s m + valof t n
      in if r = 0 then Finite (s \<and> t) 0 else round64 (r < 0) \<bar>r\<bar>)"

fun fdiv :: "float64 \<Rightarrow> float64 \<Rightarrow> float64" where
  "fdiv NaN b = NaN"
| "fdiv a NaN = NaN"
| "fdiv (Infinity s) (Infinity t) = NaN"
| "fdiv (Infinity s) (Finite t n) = Infinity (s \<noteq> t)"
| "fdiv (Finite s m) (Infinity t) = Finite (s \<noteq> t) 0"
| "fdiv (Finite s m) (Finite t n) =
     (if n = 0 then (if m = 0 then NaN else Infinity (s \<noteq> t))
      else round64 (s \<noteq> t) (m / n))"

fun fgt :: "float64 \<Rightarrow> float64 \<Rightarrow> bool" where
  "fgt NaN b = False"
| "fgt a NaN = False"
| "fgt (Infinity s) (Infinity t) = (t \<and> \<not> s)"
| "fgt (Infinity s) (Finite t n) = (\<not> s)"
| "fgt (Finite s m) (Infinity t) = t"
| "fgt (Finite s m) (Finite t n) = (valof t n < valof s m)"

text \<open>The conversion \<^verbatim>\<open>float64(len(in))\<close> of a length.\<close>

definition float64_of_len :: "nat \<Rightarrow> float64" where
  "float64_of_len n = round64 False (real n)"

subsection \<open>Time\<close>

text \<open>
  A \<^verbatim>\<open>time.Time\<close> is the number of nanoseconds since 0001-01-01T00:00:00Z, so that the
  zero value \<^verbatim>\<open>time.Time{}\<close> is 0. Every time the contract handles is in UTC without a
  monotonic reading (history timestamps, and dates read back from JSON), where \<^verbatim>\<open>==\<close>
  on the struct is equality of instants. A \<^verbatim>\<open>time.Duration\<close> is a number of nanoseconds.
  \<open>Second\<close> is the second within the minute, the same in every zone whose offset is a
  whole number of minutes.
\<close>

type_synonym time = int
type_synonym duration = int

definition Second :: "time \<Rightarrow> int" where
  "Second t = (t div 1000000000) mod 60"

text \<open>
  \<^verbatim>\<open>time.ParseDuration\<close> on the strings this contract passes to it: decimal digits
  followed by one unit. (The library also accepts a sign, fractions and several groups;
  such strings are rejected here.)
\<close>

definition isDigit :: "char \<Rightarrow> bool" where
  "isDigit c = (c \<in> set ''0123456789'')"

definition leadingInt :: "string \<Rightarrow> nat" where
  "leadingInt ds = foldl (\<lambda>x c. x * 10 + (of_char c - 48)) 0 ds"

definition unitMap :: "string \<Rightarrow> nat option" where
  "unitMap u =
     (if u = ''ns'' then Some 1
      else if u = ''us'' then Some 1000
      else if u = ''ms'' then Some 1000000
      else if u = ''s'' then Some 1000000000
      else if u = ''m'' then Some 60000000000
      else if u = ''h'' then Some 3600000000000
      else None)"

definition ParseDuration :: "string \<Rightarrow> error + duration" where
  "ParseDuration s =
     (let ds = takeWhile isDigit s; u = dropWhile isDigit s
      in if ds = [] then Inl DurationError
         else (case unitMap u of
                 None \<Rightarrow> Inl DurationError
               | Some unit \<Rightarrow>
                   (let v = leadingInt ds * unit
                    in if 2 ^ 63 - 1 < v then Inl DurationError else Inr (int v))))"

subsection \<open>SensorData and ChunkData\<close>

text \<open>
  A Go slice is \<open>None\<close> when nil and \<open>Some xs\<close> otherwise: the two are marshalled
  differently (\<^verbatim>\<open>null\<close> and \<^verbatim>\<open>[]\<close>), and both have length 0.
\<close>

type_synonym 'a slice = "'a list option"

definition elems :: "'a slice \<Rightarrow> 'a list" where
  "elems sl = (case sl of None \<Rightarrow> [] | Some xs \<Rightarrow> xs)"

record SensorData =
  X :: "float64 slice"
  Y :: "float64 slice"
  Z :: "float64 slice"

record ChunkData =
  Id_ChunkData :: string
  Sensor0 :: SensorData
  Sensor1 :: SensorData
  Sensor2 :: SensorData
  Sensor3 :: SensorData
  Sensor4 :: SensorData
  Sensor5 :: SensorData

section \<open>Policies\<close>

definition computeSignalEnergy :: "float64 slice \<Rightarrow> float64" where
  "computeSignalEnergy inp =
     foldl (\<lambda>energy val. fadd energy (pow2 (fabs val))) (Finite False 0) (elems inp)"

definition computeSignalMeanEnergy :: "float64 slice \<Rightarrow> float64" where
  "computeSignalMeanEnergy inp =
     fdiv (computeSignalEnergy inp) (float64_of_len (length (elems inp)))"

text \<open>
  A policy's \<open>Logic\<close> takes the reading of the wall clock at the moment it runs
  (\<^verbatim>\<open>time.Now()\<close>), since \<^verbatim>\<open>examplePolicyLogic\<close> reads it.
\<close>

record Policy =
  Id_Policy :: string
  Description :: string
  Logic :: "time \<Rightarrow> ChunkData \<Rightarrow> error + duration"

definition examplePolicyLogic :: "time \<Rightarrow> ChunkData \<Rightarrow> error + duration" where
  "examplePolicyLogic now d =
     (let expiryTimeString = (if Second now mod 2 = 0 then ''48h'' else ''24h'')
      in ParseDuration expiryTimeString)"

definition examplePolicy :: Policy where
  "examplePolicy =
     \<lparr>Id_Policy = ''example_policy_v1'', Description = ''This is a sample policy.'',
      Logic = examplePolicyLogic\<rparr>"

text \<open>
  The thresholds are the binary64 values of the literals \<^verbatim>\<open>1.8191607053598602e-06\<close>,
  \<^verbatim>\<open>1.2442575637320148e-06\<close> and \<^verbatim>\<open>1.0956301130461567e-06\<close>.
\<close>

record Threshold =
  X_thr :: float64
  Y_thr :: float64
  Z_thr :: float64

definition thr :: Threshold where
  "thr = \<lparr>X_thr = Finite False (4295371770972453 / 2 ^ 71),
          Y_thr = Finite False (1468960053756277 / 2 ^ 70),
          Z_thr = Finite False (5173966923471851 / 2 ^ 72)\<rparr>"

definition defaultExpiryTimeString :: string where
  "defaultExpiryTimeString = ''31800ms''"

definition thrExpiryTimeString :: string where
  "thrExpiryTimeString = ''127200ms''"

definition energyArray :: "ChunkData \<Rightarrow> float64 list" where
  "energyArray d =
     [computeSignalMeanEnergy (X (Sensor0 d)),
      computeSignalMeanEnergy (Y (Sensor0 d)),
      computeSignalMeanEnergy (Z (Sensor0 d)),
      computeSignalMeanEnergy (X (Sensor1 d)),
      computeSignalMeanEnergy (Y (Sensor1 d)),
      computeSignalMeanEnergy (Z (Sensor1 d)),
      computeSignalMeanEnergy (X (Sensor2 d)),
      computeSignalMeanEnergy (Y (Sensor2 d)),
      computeSignalMeanEnergy (Z (Sensor2 d)),
      computeSignalMeanEnergy (X (Sensor3 d)),
      computeSignalMeanEnergy (Y (Sensor3 d)),
      computeSignalMeanEnergy (Z (Sensor3 d)),
      computeSignalMeanEnergy (X (Sensor4 d)),
      computeSignalMeanEnergy (Y (Sensor4 d)),
      computeSignalMeanEnergy (Z (Sensor4 d)),
      computeSignalMeanEnergy (X (Sensor5 d)),
      computeSignalMeanEnergy (Y (Sensor5 d)),
      computeSignalMeanEnergy (Z (Sensor5 d))]"

text \<open>
  The loop \<^verbatim>\<open>for _, val := range energyArray\<close> of \<^verbatim>\<open>energyPolicyLogic\<close>, with its
  counter \<open>j\<close> and the string chosen so far.
\<close>

fun energyLoop :: "float64 list \<Rightarrow> nat \<Rightarrow> string \<Rightarrow> string" where
  "energyLoop [] j expiryTimeString = expiryTimeString"
| "energyLoop (val # rest) j expiryTimeString =
     energyLoop rest
       (if j + 1 = 3 then 0 else j + 1)
       (if (j = 0 \<and> fgt val (X_thr thr)) \<or> (j = 1 \<and> fgt val (Y_thr thr))
            \<or> (j = 2 \<and> fgt val (Z_thr thr))
        then thrExpiryTimeString else expiryTimeString)"

definition energyPolicyLogic :: "time \<Rightarrow> ChunkData \<Rightarrow> error + duration" where
  "energyPolicyLogic now d =
     ParseDuration (energyLoop (energyArray d) 0 defaultExpiryTimeString)"

definition energyPolicy :: Policy where
  "energyPolicy =
     \<lparr>Id_Policy = ''signal_energy_policy_v1'',
      Description = ''This policy computes the average signal energy, and establishes an expiry time duration based on a threshold.'',
      Logic = energyPolicyLogic\<rparr>"

definition AvailablePolicies :: "(string \<times> Policy) list" where
  "AvailablePolicies =
     [(Id_Policy examplePolicy, examplePolicy), (Id_Policy energyPolicy, energyPolicy)]"

definition getPolicy :: "string \<Rightarrow> error + Policy" where
  "getPolicy policyId = (case map_of AvailablePolicies policyId of
                     None \<Rightarrow> Inl PolicyNotFound
                   | Some p \<Rightarrow> Inr p)"

definition applyToChunkData :: "Policy \<Rightarrow> time \<Rightarrow> ChunkData \<Rightarrow> error + duration" where
  "applyToChunkData p now d = Logic p now d"

definition applyPolicyById :: "time \<Rightarrow> ChunkData \<Rightarrow> string \<Rightarrow> error + duration" where
  "applyPolicyById now d policyId =
     (case getPolicy policyId of
        Inl e \<Rightarrow> Inl PolicyNotFound
      | Inr p \<Rightarrow> applyToChunkData p now d)"

section \<open>Library functions\<close>

text \<open>
  The contract calls \<^verbatim>\<open>encoding/base64\<close>, \<^verbatim>\<open>encoding/json\<close>, \<^verbatim>\<open>crypto/md5\<close> and
  \<^verbatim>\<open>time.Parse\<close>. They are parameters of the model:
  \<^item> \<open>base64JsonDecode\<close>: \<^verbatim>\<open>json.NewDecoder(base64.NewDecoder(base64.StdEncoding, r)).Decode\<close>
    into a fresh ChunkData, \<open>None\<close> when it returns an error;
  \<^item> \<open>jsonMarshalChunk\<close>: \<^verbatim>\<open>json.Marshal\<close> of a ChunkData, \<open>None\<close> when it returns an error;
  \<^item> \<open>md5Sum\<close>: the digest \<^verbatim>\<open>md5.Sum\<close> printed with \<^verbatim>\<open>%x\<close>;
  \<^item> \<open>parseRFC3339\<close>: \<^verbatim>\<open>time.Parse(time.RFC3339, s)\<close>, \<open>None\<close> when it returns an error.
\<close>

record library =
  base64JsonDecode :: "string \<Rightarrow> ChunkData option"
  jsonMarshalChunk :: "ChunkData \<Rightarrow> string option"
  md5Sum :: "string \<Rightarrow> string"
  parseRFC3339 :: "string \<Rightarrow> time option"

definition base64DecodeJson :: "library \<Rightarrow> string \<Rightarrow> error + ChunkData" where
  "base64DecodeJson L enc =
     (case base64JsonDecode L enc of None \<Rightarrow> Inl DecodeError | Some v \<Rightarrow> Inr v)"

definition md5Hash :: "library \<Rightarrow> string \<Rightarrow> error + string" where
  "md5Hash L dat = Inr (md5Sum L dat)"

definition hash :: "library \<Rightarrow> ChunkData \<Rightarrow> error + string" where
  "hash L d =
     (case jsonMarshalChunk L d of
        None \<Rightarrow> Inl HashError
      | Some dataJSON \<Rightarrow>
          (case md5Hash L dataJSON of
             Inl e \<Rightarrow> Inl HashError
           | Inr dataHash \<Rightarrow> Inr dataHash))"

section \<open>The ledger\<close>

record Asset =
  AppliedPolicyId :: string
  ChunkId :: string
  DataHash :: string
  ExpiryDate :: time
  ExpiryPeriod :: duration

text \<open>
  The ledger is the contract's namespace of the world state, with the history of every
  key, kept here in commit order. Only this contract writes to the namespace, so a stored
  value is the JSON document of an Asset; the model stores the Asset, and
  \<^verbatim>\<open>json.Unmarshal\<close> of a stored value gives it back. The stub's own failures (an error
  from \<^verbatim>\<open>GetState\<close>, \<^verbatim>\<open>PutState\<close> or an iterator) are the host's and are not modelled.
  A write is visible to the reads that follow it and adds an entry to the key's history,
  stamped with the transaction's id and timestamp.

  The repository installs Fabric 2.4.7 (\<^verbatim>\<open>install-fabric.sh --fabric-version 2.4.7\<close> in
  its README). The history iterator of a Fabric 2.x peer yields the entries of a key from
  the newest to the oldest, so \<open>GetHistoryForKey\<close> is the commit-ordered history reversed.
\<close>

record KeyModification =
  TxId_km :: string
  Timestamp_km :: time
  Value_km :: "Asset option"
  IsDelete_km :: bool

record ledger =
  world :: "(string \<times> Asset) list"
  history :: "string \<Rightarrow> KeyModification list"

record TransactionContext =
  GetTxID :: string
  GetTxTimestamp :: time

definition GetState :: "ledger \<Rightarrow> string \<Rightarrow> Asset option" where
  "GetState s k = map_of (world s) k"

definition PutState :: "TransactionContext \<Rightarrow> ledger \<Rightarrow> string \<Rightarrow> Asset \<Rightarrow> ledger" where
  "PutState ctx s k v =
     s\<lparr>world := AList.update k v (world s),
       history := (history s)(k := history s k @
         [\<lparr>TxId_km = GetTxID ctx, Timestamp_km = GetTxTimestamp ctx,
           Value_km = Some v, IsDelete_km = False\<rparr>])\<rparr>"

definition DelState :: "TransactionContext \<Rightarrow> ledger \<Rightarrow> string \<Rightarrow> ledger" where
  "DelState ctx s k =
     s\<lparr>world := AList.delete k (world s),
       history := (history s)(k := history s k @
         [\<lparr>TxId_km = GetTxID ctx, Timestamp_km = GetTxTimestamp ctx,
           Value_km = None, IsDelete_km = True\<rparr>])\<rparr>"

definition GetStateByRange :: "ledger \<Rightarrow> (string \<times> Asset) list" where
  \<comment> \<open>\<^verbatim>\<open>GetStateByRange("", "")\<close>: every record of the namespace\<close>
  "GetStateByRange s = world s"

definition GetHistoryForKey :: "ledger \<Rightarrow> string \<Rightarrow> KeyModification list" where
  "GetHistoryForKey s k = rev (history s k)"

text \<open>
  \<^verbatim>\<open>json.Marshal\<close> of an Asset fails when the year of \<open>ExpiryDate\<close> is outside
  \<open>[0, 9999]\<close> (\<^verbatim>\<open>Time.MarshalJSON\<close>); the bounds are the first instants of the years 0
  and 10000.
\<close>

definition jsonMarshal :: "Asset \<Rightarrow> error + Asset" where
  "jsonMarshal a =
     (if - 31622400 * 1000000000 \<le> ExpiryDate a \<and> ExpiryDate a < 315537897600 * 1000000000
      then Inr a else Inl MarshalError)"

section \<open>The contract\<close>

subsection \<open>Atomic private transactions\<close>

definition assetExists :: "ledger \<Rightarrow> string \<Rightarrow> bool" where
  "assetExists s k = (GetState s k \<noteq> None)"

definition createAsset ::
  "TransactionContext \<Rightarrow> ledger \<Rightarrow> Asset \<Rightarrow> (error + unit) \<times> ledger" where
  "createAsset ctx s a =
     (if assetExists s (ChunkId a) then (Inl AlreadyExists, s)
      else (case jsonMarshal a of
              Inl e \<Rightarrow> (Inl e, s)
            | Inr assetJSON \<Rightarrow> (Inr (), PutState ctx s (ChunkId a) assetJSON)))"

definition readAsset :: "ledger \<Rightarrow> string \<Rightarrow> error + Asset" where
  "readAsset s k = (case GetState s k of None \<Rightarrow> Inl NotFound | Some asset \<Rightarrow> Inr asset)"

definition updateAsset ::
  "TransactionContext \<Rightarrow> ledger \<Rightarrow> string \<Rightarrow> Asset \<Rightarrow> (error + unit) \<times> ledger" where
  "updateAsset ctx s k a =
     (if ChunkId a \<noteq> k then (Inl IdMismatch, s)
      else (case readAsset s k of
              Inl e \<Rightarrow> (Inl e, s)
            | Inr old \<Rightarrow>
                (case jsonMarshal a of
                   Inl e \<Rightarrow> (Inl e, s)
                 | Inr assetBytes \<Rightarrow> (Inr (), PutState ctx s k assetBytes))))"

definition deleteAsset ::
  "TransactionContext \<Rightarrow> ledger \<Rightarrow> string \<Rightarrow> (error + unit) \<times> ledger" where
  "deleteAsset ctx s k =
     (if assetExists s k then (Inr (), DelState ctx s k) else (Inl NotFound, s))"

subsection \<open>Private transactions\<close>

record HistoryQueryResult =
  Record :: Asset
  TxId :: string
  Timestamp :: time
  IsDelete :: bool

definition getAssetHistory :: "ledger \<Rightarrow> string \<Rightarrow> HistoryQueryResult list" where
  "getAssetHistory s k =
     map (\<lambda>response.
            \<lparr>Record = (case Value_km response of
                         Some asset \<Rightarrow> asset
                       | None \<Rightarrow> \<lparr>AppliedPolicyId = [], ChunkId = k, DataHash = [],
                                  ExpiryDate = 0, ExpiryPeriod = 0\<rparr>),
             TxId = TxId_km response,
             Timestamp = Timestamp_km response,
             IsDelete = IsDelete_km response\<rparr>)
         (GetHistoryForKey s k)"

definition updateAssetExpiryDate ::
  "TransactionContext \<Rightarrow> ledger \<Rightarrow> string \<Rightarrow> time \<Rightarrow> (error + unit) \<times> ledger" where
  "updateAssetExpiryDate ctx s k expiryDate =
     (case readAsset s k of
        Inl e \<Rightarrow> (Inl e, s)
      | Inr asset \<Rightarrow> updateAsset ctx s k (asset\<lparr>ExpiryDate := expiryDate\<rparr>))"

definition getAssetCreationTime :: "ledger \<Rightarrow> string \<Rightarrow> error + time" where
  "getAssetCreationTime s k =
     (let h = getAssetHistory s k
      in if length h = 0 then Inl EmptyHistory else Inr (Timestamp (h ! 0)))"

definition computeExpiryDate :: "ledger \<Rightarrow> string \<Rightarrow> duration \<Rightarrow> error + time" where
  "computeExpiryDate s k expiryPeriod =
     (case getAssetCreationTime s k of
        Inl e \<Rightarrow> Inl e
      | Inr creationTime \<Rightarrow> Inr (creationTime + expiryPeriod))"

subsection \<open>Public transactions\<close>

text \<open>
  A transaction takes the library, the readings of the wall clock it makes
  (\<^verbatim>\<open>time.Now()\<close>, where it or a policy reads it), the transaction context and the ledger,
  and returns its result with the ledger as its writes leave it.
\<close>

definition AddChunk ::
  "library \<Rightarrow> TransactionContext \<Rightarrow> ledger \<Rightarrow> string \<Rightarrow> string \<Rightarrow> (error + unit) \<times> ledger" where
  "AddChunk L ctx s chunkId chunkDataBase64 =
     (if assetExists s chunkId then (Inl AlreadyExists, s)
      else (case base64DecodeJson L chunkDataBase64 of
              Inl e \<Rightarrow> (Inl DecodeError, s)
            | Inr chunkData \<Rightarrow>
                (case hash L chunkData of
                   Inl e \<Rightarrow> (Inl HashError, s)
                 | Inr chunkDataHash \<Rightarrow>
                     createAsset ctx s
                       \<lparr>AppliedPolicyId = [], ChunkId = chunkId, DataHash = chunkDataHash,
                        ExpiryDate = 0, ExpiryPeriod = 0\<rparr>)))"

definition AddChunkWithPolicy ::
  "library \<Rightarrow> time \<Rightarrow> TransactionContext \<Rightarrow> ledger \<Rightarrow> string \<Rightarrow> string \<Rightarrow> string
     \<Rightarrow> (error + unit) \<times> ledger" where
  "AddChunkWithPolicy L now ctx s chunkId chunkDataBase64 policyId =
     (if assetExists s chunkId then (Inl AlreadyExists, s)
      else (case base64DecodeJson L chunkDataBase64 of
              Inl e \<Rightarrow> (Inl DecodeError, s)
            | Inr chunkData \<Rightarrow>
                (case hash L chunkData of
                   Inl e \<Rightarrow> (Inl HashError, s)
                 | Inr chunkDataHash \<Rightarrow>
                     (case applyPolicyById now chunkData policyId of
                        Inl e \<Rightarrow> (Inl e, s)
                      | Inr chunkExpiryPeriod \<Rightarrow>
                          createAsset ctx s
                            \<lparr>AppliedPolicyId = policyId, ChunkId = chunkId,
                             DataHash = chunkDataHash, ExpiryDate = 0,
                             ExpiryPeriod = chunkExpiryPeriod\<rparr>))))"

text \<open>
  The first loop of \<^verbatim>\<open>AddChunkWithPolicyBatch\<close>, over the entries
  \<open>(chunkId[i], chunkDataBase64[i], policyId[i])\<close> from index \<open>i\<close> on: it reads the ledger,
  never writes, and collects \<open>newAssets\<close>. Its iteration \<open>i\<close> reads the clock as
  \<open>clock i\<close>.
\<close>

fun checkInputs ::
  "library \<Rightarrow> (nat \<Rightarrow> time) \<Rightarrow> ledger \<Rightarrow> nat \<Rightarrow> (string \<times> string \<times> string) list
     \<Rightarrow> Asset list \<Rightarrow> error + Asset list" where
  "checkInputs L clock s i [] newAssets = Inr newAssets"
| "checkInputs L clock s i ((chunkId, chunkDataBase64, policyId) # rest) newAssets =
     (if assetExists s chunkId then Inl AlreadyExists
      else (case base64DecodeJson L chunkDataBase64 of
              Inl e \<Rightarrow> Inl DecodeError
            | Inr chunkData \<Rightarrow>
                (case hash L chunkData of
                   Inl e \<Rightarrow> Inl HashError
                 | Inr chunkDataHash \<Rightarrow>
                     (case applyPolicyById (clock i) chunkData policyId of
                        Inl e \<Rightarrow> Inl e
                      | Inr chunkExpiryPeriod \<Rightarrow>
                          checkInputs L clock s (i + 1) rest
                            (newAssets @
                               [\<lparr>AppliedPolicyId = policyId, ChunkId = chunkId,
                                 DataHash = chunkDataHash, ExpiryDate = 0,
                                 ExpiryPeriod = chunkExpiryPeriod\<rparr>])))))"

text \<open>The second loop: \<^verbatim>\<open>createAsset\<close> for each new asset, stopping at the first error.\<close>

fun createAll ::
  "TransactionContext \<Rightarrow> ledger \<Rightarrow> Asset list \<Rightarrow> (error + unit) \<times> ledger" where
  "createAll ctx s [] = (Inr (), s)"
| "createAll ctx s (newAsset # rest) =
     (case createAsset ctx s newAsset of
        (Inl e, s') \<Rightarrow> (Inl e, s')
      | (Inr u, s') \<Rightarrow> createAll ctx s' rest)"

definition AddChunkWithPolicyBatch ::
  "library \<Rightarrow> (nat \<Rightarrow> time) \<Rightarrow> TransactionContext \<Rightarrow> ledger \<Rightarrow> string list \<Rightarrow> string list
     \<Rightarrow> string list \<Rightarrow> (error + unit) \<times> ledger" where
  "AddChunkWithPolicyBatch L clock ctx s chunkId chunkDataBase64 policyId =
     (if length chunkId \<noteq> length chunkDataBase64 \<or> length chunkId \<noteq> length policyId
      then (Inl SizeMismatch, s)
      else (case checkInputs L clock s 0 (zip chunkId (zip chunkDataBase64 policyId)) [] of
              Inl e \<Rightarrow> (Inl e, s)
            | Inr newAssets \<Rightarrow> createAll ctx s newAssets))"

definition ApplyPolicy ::
  "library \<Rightarrow> time \<Rightarrow> TransactionContext \<Rightarrow> ledger \<Rightarrow> string \<Rightarrow> string \<Rightarrow> string
     \<Rightarrow> (error + unit) \<times> ledger" where
  "ApplyPolicy L now ctx s chunkId chunkDataBase64 policyId =
     (case readAsset s chunkId of
        Inl e \<Rightarrow> (Inl e, s)
      | Inr asset \<Rightarrow>
          (case base64DecodeJson L chunkDataBase64 of
             Inl e \<Rightarrow> (Inl DecodeError, s)
           | Inr chunkData \<Rightarrow>
               (case hash L chunkData of
                  Inl e \<Rightarrow> (Inl HashError, s)
                | Inr givenDataHash \<Rightarrow>
                    (if DataHash asset \<noteq> givenDataHash then (Inl IntegrityMismatch, s)
                     else (case applyPolicyById now chunkData policyId of
                             Inl e \<Rightarrow> (Inl e, s)
                           | Inr chunkExpiryPeriod \<Rightarrow>
                               (case computeExpiryDate s chunkId chunkExpiryPeriod of
                                  Inl e \<Rightarrow> (Inl e, s)
                                | Inr chunkExpiryDate \<Rightarrow>
                                    updateAsset ctx s chunkId
                                      (asset\<lparr>AppliedPolicyId := policyId,
                                             ExpiryDate := chunkExpiryDate,
                                             ExpiryPeriod := chunkExpiryPeriod\<rparr>)))))))"

definition UpdateChunkExpiryDate ::
  "TransactionContext \<Rightarrow> ledger \<Rightarrow> string \<Rightarrow> (error + unit) \<times> ledger" where
  "UpdateChunkExpiryDate ctx s k =
     (case readAsset s k of
        Inl e \<Rightarrow> (Inl e, s)
      | Inr asset \<Rightarrow>
          (if AppliedPolicyId asset = [] \<or> ExpiryPeriod asset = 0
           then (Inl PolicyNotApplied, s)
           else (case getAssetCreationTime s k of
                   Inl e \<Rightarrow> (Inl e, s)
                 | Inr creationTime \<Rightarrow>
                     (let expiryDate = creationTime + ExpiryPeriod asset
                      in if expiryDate = ExpiryDate asset then (Inl NoChange, s)
                         else updateAssetExpiryDate ctx s k expiryDate))))"

text \<open>
  The loop of \<^verbatim>\<open>GetExpiredChunks\<close> over the range iterator. \<^verbatim>\<open>var count int = 0\<close> is
  declared in the loop body, so every iteration starts from a fresh \<open>count\<close>.
\<close>

fun expiredLoop :: "time \<Rightarrow> (string \<times> Asset) list \<Rightarrow> Asset list \<Rightarrow> Asset list" where
  "expiredLoop givenExpiryTime [] assets = assets"
| "expiredLoop givenExpiryTime ((k, asset) # rest) assets =
     (let count = (0 :: int)
      in if ExpiryDate asset \<noteq> 0 \<and> ExpiryDate asset < givenExpiryTime
         then (let assets' = assets @ [asset]; count' = count + 1
               in if count' = 30 then assets'
                  else expiredLoop givenExpiryTime rest assets')
         else expiredLoop givenExpiryTime rest assets)"

definition GetExpiredChunks :: "library \<Rightarrow> time \<Rightarrow> ledger \<Rightarrow> string \<Rightarrow> error + Asset list" where
  "GetExpiredChunks L now s expiryDateRFC3339 =
     (case parseRFC3339 L expiryDateRFC3339 of
        None \<Rightarrow> Inl ParseError
      | Some givenExpiryTime \<Rightarrow>
          (if now < givenExpiryTime then Inl FutureDateRejected
           else Inr (expiredLoop givenExpiryTime (GetStateByRange s) [])))"

definition DeleteChunkIfExpired ::
  "time \<Rightarrow> TransactionContext \<Rightarrow> ledger \<Rightarrow> string \<Rightarrow> (error + unit) \<times> ledger" where
  "DeleteChunkIfExpired now ctx s chunkId =
     (case readAsset s chunkId of
        Inl e \<Rightarrow> (Inl e, s)
      | Inr asset \<Rightarrow>
          (if AppliedPolicyId asset = [] then (Inl PolicyNotApplied, s)
           else if ExpiryDate asset = 0 then (Inl ExpiryNotComputed, s)
           else if now < ExpiryDate asset then (Inl NotYetExpired, s)
           else deleteAsset ctx s chunkId))"

definition GetAllAssets :: "ledger \<Rightarrow> error + Asset list" where
  "GetAllAssets s = Inr (map snd (GetStateByRange s))"

definition ChunkExisted :: "ledger \<Rightarrow> string \<Rightarrow> error + bool" where
  "ChunkExisted s chunkId =
     (let h = getAssetHistory s chunkId in if length h = 0 then Inr False else Inr True)"

definition ReadChunk :: "ledger \<Rightarrow> string \<Rightarrow> error + Asset" where
  "ReadChunk s chunkId = readAsset s chunkId"

section \<open>Notions used in the statements\<close>

text \<open>
  The eighteen sample sequences of a ChunkData in the order \<open>energyArray\<close> visits them,
  the threshold of the axis with a given index modulo 3, and the two zeros.
\<close>

definition axes :: "ChunkData \<Rightarrow> float64 slice list" where
  "axes d =
     [X (Sensor0 d), Y (Sensor0 d), Z (Sensor0 d), X (Sensor1 d), Y (Sensor1 d), Z (Sensor1 d),
      X (Sensor2 d), Y (Sensor2 d), Z (Sensor2 d), X (Sensor3 d), Y (Sensor3 d), Z (Sensor3 d),
      X (Sensor4 d), Y (Sensor4 d), Z (Sensor4 d), X (Sensor5 d), Y (Sensor5 d), Z (Sensor5 d)]"

definition axisThreshold :: "nat \<Rightarrow> float64" where
  "axisThreshold r = (if r = 0 then X_thr thr else if r = 1 then Y_thr thr else Z_thr thr)"

definition isZero :: "float64 \<Rightarrow> bool" where
  "isZero v = (v = Finite False 0 \<or> v = Finite True 0)"

text \<open>
  What one iteration of the first loop of \<^verbatim>\<open>AddChunkWithPolicyBatch\<close> checks for its
  entry: that the id is free, that the data decodes and hashes, and that the policy
  evaluates. It yields the new asset.
\<close>

definition checkEntry ::
  "library \<Rightarrow> time \<Rightarrow> ledger \<Rightarrow> string \<times> string \<times> string \<Rightarrow> error + Asset" where
  "checkEntry L now s entry =
     (case entry of (chunkId, chunkDataBase64, policyId) \<Rightarrow>
        if assetExists s chunkId then Inl AlreadyExists
        else (case base64DecodeJson L chunkDataBase64 of
                Inl e \<Rightarrow> Inl DecodeError
              | Inr chunkData \<Rightarrow>
                  (case hash L chunkData of
                     Inl e \<Rightarrow> Inl HashError
                   | Inr chunkDataHash \<Rightarrow>
                       (case applyPolicyById now chunkData policyId of
                          Inl e \<Rightarrow> Inl e
                        | Inr chunkExpiryPeriod \<Rightarrow>
                            Inr \<lparr>AppliedPolicyId = policyId, ChunkId = chunkId,
                                 DataHash = chunkDataHash, ExpiryDate = 0,
                                 ExpiryPeriod = chunkExpiryPeriod\<rparr>))))"

section \<open>Sample inputs\<close>

text \<open>
  Chunk \<open>c1\<close> with one zero sample on every axis; the same chunk with the sample 1 on
  the first axis; and the same chunk with a nil sequence on axis Y of sensor 3.
\<close>

definition zeroSensor :: SensorData where
  "zeroSensor =
     \<lparr>X = Some [Finite False 0], Y = Some [Finite False 0], Z = Some [Finite False 0]\<rparr>"

definition zeroChunk :: ChunkData where
  "zeroChunk =
     \<lparr>Id_ChunkData = ''c1'', Sensor0 = zeroSensor, Sensor1 = zeroSensor, Sensor2 = zeroSensor,
      Sensor3 = zeroSensor, Sensor4 = zeroSensor, Sensor5 = zeroSensor\<rparr>"

definition unitChunk :: ChunkData where
  "unitChunk = zeroChunk\<lparr>Sensor0 := zeroSensor\<lparr>X := Some [Finite False 1]\<rparr>\<rparr>"

definition nilAxisChunk :: ChunkData where
  "nilAxisChunk = zeroChunk\<lparr>Sensor3 := zeroSensor\<lparr>Y := None\<rparr>\<rparr>"

text \<open>The same chunk with the two samples 1 and -3 on axis Z of sensor 1.\<close>

definition pairChunk :: ChunkData where
  "pairChunk =
     zeroChunk\<lparr>Sensor1 := zeroSensor\<lparr>Z := Some [Finite False 1, Finite True 3]\<rparr>\<rparr>"

text \<open>
  The JSON documents of \<open>zeroChunk\<close> and \<open>unitChunk\<close> as \<^verbatim>\<open>json.Marshal\<close> writes them,
  their base64 encodings, and the base64 encoding of the document of \<open>zeroChunk\<close> written
  with a space after some separators.
\<close>

definition zeroDoc :: string where
  \<open>zeroDoc = ''{"id":"c1","0":{"x":[0],"y":[0],"z":[0]},"1":{"x":[0],"y":[0],"z":[0]},"2":{"x":[0],"y":[0],"z":[0]},"3":{"x":[0],"y":[0],"z":[0]},"4":{"x":[0],"y":[0],"z":[0]},"5":{"x":[0],"y":[0],"z":[0]}}''\<close>

definition unitDoc :: string where
  \<open>unitDoc = ''{"id":"c1","0":{"x":[1],"y":[0],"z":[0]},"1":{"x":[0],"y":[0],"z":[0]},"2":{"x":[0],"y":[0],"z":[0]},"3":{"x":[0],"y":[0],"z":[0]},"4":{"x":[0],"y":[0],"z":[0]},"5":{"x":[0],"y":[0],"z":[0]}}''\<close>

definition zeroEnc :: string where
  "zeroEnc = ''eyJpZCI6ImMxIiwiMCI6eyJ4IjpbMF0sInkiOlswXSwieiI6WzBdfSwiMSI6eyJ4IjpbMF0sInkiOlswXSwieiI6WzBdfSwiMiI6eyJ4IjpbMF0sInkiOlswXSwieiI6WzBdfSwiMyI6eyJ4IjpbMF0sInkiOlswXSwieiI6WzBdfSwiNCI6eyJ4IjpbMF0sInkiOlswXSwieiI6WzBdfSwiNSI6eyJ4IjpbMF0sInkiOlswXSwieiI6WzBdfX0=''"

definition zeroEncSpaced :: string where
  "zeroEncSpaced = ''eyJpZCI6ICJjMSIsICIwIjp7IngiOlswXSwieSI6WzBdLCJ6IjpbMF19LCAiMSI6eyJ4IjpbMF0sInkiOlswXSwieiI6WzBdfSwgIjIiOnsieCI6WzBdLCJ5IjpbMF0sInoiOlswXX0sICIzIjp7IngiOlswXSwieSI6WzBdLCJ6IjpbMF19LCAiNCI6eyJ4IjpbMF0sInkiOlswXSwieiI6WzBdfSwgIjUiOnsieCI6WzBdLCJ5IjpbMF0sInoiOlswXX19''"

definition unitEnc :: string where
  "unitEnc = ''eyJpZCI6ImMxIiwiMCI6eyJ4IjpbMV0sInkiOlswXSwieiI6WzBdfSwiMSI6eyJ4IjpbMF0sInkiOlswXSwieiI6WzBdfSwiMiI6eyJ4IjpbMF0sInkiOlswXSwieiI6WzBdfSwiMyI6eyJ4IjpbMF0sInkiOlswXSwieiI6WzBdfSwiNCI6eyJ4IjpbMF0sInkiOlswXSwieiI6WzBdfSwiNSI6eyJ4IjpbMF0sInkiOlswXSwieiI6WzBdfX0=''"

text \<open>
  The library on these inputs: the three encodings decode, the two chunks marshal, the
  two documents have their MD5 digests, and one timestamp parses (2014-11-12T11:45:26.371Z
  is 63551389526371000000 ns after the zero time). Every other input is rejected, or
  hashed to the digest of the empty string.
\<close>

definition sampleLib :: library where
  "sampleLib =
     \<lparr>base64JsonDecode =
        (\<lambda>enc. if enc = zeroEnc \<or> enc = zeroEncSpaced then Some zeroChunk
               else if enc = unitEnc then Some unitChunk else None),
      jsonMarshalChunk =
        (\<lambda>d. if d = zeroChunk then Some zeroDoc
             else if d = unitChunk then Some unitDoc else None),
      md5Sum =
        (\<lambda>dat. if dat = zeroDoc then ''3e54ce97848f7335e70d417d5b7a436e''
               else if dat = unitDoc then ''22603f006f258a4a3e18a7851c078553''
               else ''d41d8cd98f00b204e9800998ecf8427e''),
      parseRFC3339 =
        (\<lambda>str. if str = ''2014-11-12T11:45:26.371Z'' then Some 63551389526371000000
               else None)\<rparr>"

text \<open>
  Ledgers: the empty one; \<open>c1\<close> created without a policy, and with the energy policy, at
  2023-01-01T00:00:00Z (63808128000000000000); then the policy applied one second later;
  then the chunk deleted one minute after its creation.
\<close>

definition emptyLedger :: ledger where
  "emptyLedger = \<lparr>world = [], history = (\<lambda>k. [])\<rparr>"

definition ledgerPlain :: ledger where
  "ledgerPlain =
     snd (AddChunk sampleLib
            \<lparr>GetTxID = ''tx1'', GetTxTimestamp = 63808128000000000000\<rparr>
            emptyLedger ''c1'' zeroEnc)"

definition ledgerCreated :: ledger where
  "ledgerCreated =
     snd (AddChunkWithPolicy sampleLib 63808128000000000000
            \<lparr>GetTxID = ''tx1'', GetTxTimestamp = 63808128000000000000\<rparr>
            emptyLedger ''c1'' zeroEnc ''signal_energy_policy_v1'')"

definition ledgerApplied :: ledger where
  "ledgerApplied =
     snd (ApplyPolicy sampleLib 63808128001000000000
            \<lparr>GetTxID = ''tx2'', GetTxTimestamp = 63808128001000000000\<rparr>
            ledgerCreated ''c1'' zeroEncSpaced ''signal_energy_policy_v1'')"

text \<open>
  The chunk created with the energy policy, after \<^verbatim>\<open>UpdateChunkExpiryDate\<close> one second
  after its creation.
\<close>

definition ledgerUpdated :: ledger where
  "ledgerUpdated =
     snd (UpdateChunkExpiryDate
            \<lparr>GetTxID = ''tx2'', GetTxTimestamp = 63808128001000000000\<rparr>
            ledgerCreated ''c1'')"

definition ledgerDeleted :: ledger where
  "ledgerDeleted =
     snd (DeleteChunkIfExpired 63808128060000000000
            \<lparr>GetTxID = ''tx3'', GetTxTimestamp = 63808128060000000000\<rparr>
            ledgerApplied ''c1'')"

text \<open>
  A ledger of 31 chunks \<open>c\<close>, \<open>cc\<close>, \<open>ccc\<close>, ... created at 2013-01-01T00:00:00Z
  (63492595200000000000) with the energy policy, whose expiry dates were computed one
  second later.
\<close>

definition expiredAsset :: "nat \<Rightarrow> Asset" where
  "expiredAsset i =
     \<lparr>AppliedPolicyId = ''signal_energy_policy_v1'', ChunkId = replicate (Suc i) CHR ''c'',
      DataHash = ''3e54ce97848f7335e70d417d5b7a436e'', ExpiryDate = 63492595231800000000,
      ExpiryPeriod = 31800000000\<rparr>"

definition ledger31 :: ledger where
  "ledger31 =
     \<lparr>world = map (\<lambda>i. (ChunkId (expiredAsset i), expiredAsset i)) [0..<31],
      history =
        (\<lambda>k. case map_of (map (\<lambda>i. (ChunkId (expiredAsset i), i)) [0..<31]) k of
               None \<Rightarrow> []
             | Some i \<Rightarrow>
                 [\<lparr>TxId_km = ''tx1'', Timestamp_km = 63492595200000000000,
                   Value_km = Some ((expiredAsset i)\<lparr>ExpiryDate := 0\<rparr>), IsDelete_km = False\<rparr>,
                  \<lparr>TxId_km = ''tx2'', Timestamp_km = 63492595201000000000,
                   Value_km = Some (expiredAsset i), IsDelete_km = False\<rparr>])\<rparr>"

section \<open>Lemmas\<close>

subsection \<open>Durations and float64\<close>

lemma ParseDuration_default: "ParseDuration defaultExpiryTimeString = Inr 31800000000"
  by (simp add: ParseDuration_def isDigit_def unitMap_def leadingInt_def
        defaultExpiryTimeString_def)

lemma ParseDuration_thr: "ParseDuration thrExpiryTimeString = Inr 127200000000"
  by (simp add: ParseDuration_def isDigit_def unitMap_def leadingInt_def thrExpiryTimeString_def)

lemma ParseDuration_error: "ParseDuration str = Inl e \<Longrightarrow> e = DurationError"
  by (auto simp: ParseDuration_def Let_def split: if_splits option.splits)

lemma round_even_ge: "\<lfloor>q\<rfloor> \<le> round_even q"
  by (simp add: round_even_def Let_def)

lemma round_to_pos:
  assumes "2 powr of_int e \<le> m"
  shows "0 < round_to e m"
proof -
  have p: "0 < (2::real) powr of_int e" by simp
  then have "1 \<le> m / 2 powr of_int e" using assms by (simp add: le_divide_eq)
  then have "1 \<le> \<lfloor>m / 2 powr of_int e\<rfloor>" by linarith
  then have "1 \<le> round_even (m / 2 powr of_int e)"
    using round_even_ge [of "m / 2 powr of_int e"] by linarith
  then have "0 < (of_int (round_even (m / 2 powr of_int e)) :: real)" by simp
  then show ?thesis using p by (simp add: round_to_def)
qed

lemma expo_bound:
  assumes "1 \<le> m"
  shows "2 powr of_int (max (expo m) (- 1022) - 52) \<le> m"
proof -
  have "0 \<le> log 2 m" using assms by simp
  then have "0 \<le> expo m" by (simp add: expo_def)
  then have eq: "max (expo m) (- 1022) = expo m" by simp
  have "of_int (expo m) \<le> log 2 m" by (simp add: expo_def)
  then have "of_int (expo m - 52) \<le> log 2 m" by simp
  then have "2 powr of_int (expo m - 52) \<le> 2 powr log 2 m" by simp
  also have "\<dots> = m" using assms by simp
  finally show ?thesis using eq by simp
qed

lemma round64_zero: "round64 s 0 = Finite s 0"
  by (simp add: round64_def)

lemma round64_one: "round64 s 1 = Finite s 1"
  by (simp add: round64_def expo_def round_to_def round_even_def Let_def powr_minus)

lemma round64_ge1:
  assumes "1 \<le> m"
  shows "round64 s m = Infinity s \<or> (\<exists>y. 0 < y \<and> round64 s m = Finite s y)"
proof -
  have "m \<noteq> 0" using assms by simp
  moreover have "0 < round_to (max (expo m) (- 1022) - 52) m"
    using round_to_pos [OF expo_bound [OF assms]] .
  ultimately show ?thesis by (simp add: round64_def Let_def)
qed

lemma fdiv_zero_len:
  assumes "0 < n"
  shows "fdiv (Finite False 0) (float64_of_len n) = Finite False 0"
proof -
  have "1 \<le> real n" using assms by simp
  from round64_ge1 [OF this, of False]
  show ?thesis by (auto simp: float64_of_len_def round64_zero)
qed

text \<open>On natural numbers below \<open>2^53\<close> the arithmetic is exact.\<close>

lemma round_even_of_int: "round_even (of_int z) = z"
  by (simp add: round_even_def Let_def)

lemma expo_nat_bounds:
  assumes "0 < n" "n < 2 ^ 53"
  shows "0 \<le> expo (real n)" "expo (real n) \<le> 52"
proof -
  have n1: "1 \<le> real n" using assms by simp
  then have "0 \<le> log 2 (real n)" by simp
  then show "0 \<le> expo (real n)" by (simp add: expo_def)
  have "real n < 2 ^ 53" using assms(2) by (metis of_nat_less_iff of_nat_numeral of_nat_power)
  then have "real n < 2 powr 53" by simp
  then have "log 2 (real n) < 53" using n1 by (simp add: log_less_iff)
  then show "expo (real n) \<le> 52" unfolding expo_def by linarith
qed

lemma round_to_nat:
  assumes "0 < n" "n < 2 ^ 53"
  shows "round_to (expo (real n) - 52) (real n) = real n"
proof -
  define k where "k = nat (52 - expo (real n))"
  have e: "expo (real n) - 52 = - int k"
    using expo_nat_bounds [OF assms] by (simp add: k_def)
  have p: "(2::real) powr of_int (expo (real n) - 52) = 1 / 2 ^ k"
    by (simp add: e powr_minus powr_realpow inverse_eq_divide)
  have "real n / (1 / 2 ^ k) = of_int (int (n * 2 ^ k))" by simp
  then have r: "round_even (real n / (1 / 2 ^ k)) = int (n * 2 ^ k)"
    by (simp only: round_even_of_int)
  show ?thesis unfolding round_to_def p r by simp
qed

lemma round64_nat:
  assumes "n < 2 ^ 53"
  shows "round64 s (real n) = Finite s (real n)"
proof (cases "n = 0")
  case True
  then show ?thesis by (simp add: round64_zero)
next
  case False
  then have n: "0 < n" by simp
  have m: "max (expo (real n)) (- 1022) = expo (real n)"
    using expo_nat_bounds(1) [OF n assms] by simp
  have "real n < 2 ^ 53" using assms by (metis of_nat_less_iff of_nat_numeral of_nat_power)
  also have "\<dots> < (2 ^ 1024 :: real)" by simp
  finally have "\<not> (2 ^ 1024 \<le> real n)" by simp
  then show ?thesis using False by (simp add: round64_def m round_to_nat [OF n assms])
qed

lemma pow2_nat:
  assumes "a * a < 2 ^ 53"
  shows "pow2 (fabs (Finite s (real a))) = Finite False (real (a * a))"
proof (cases "a = 0")
  case True
  then show ?thesis by simp
next
  case False
  then have "0 < a * a" by simp
  from round_to_nat [OF this assms] round64_nat [OF assms, of False] False
  show ?thesis by simp
qed

lemma fadd_nat:
  assumes "m + n < 2 ^ 53"
  shows "fadd (Finite False (real m)) (Finite False (real n)) = Finite False (real (m + n))"
proof (cases "m + n = 0")
  case True
  then show ?thesis by (simp add: valof_def)
next
  case False
  have "real m + real n \<noteq> 0" using False by (metis of_nat_add of_nat_eq_0_iff)
  moreover have "\<bar>real m + real n\<bar> = real (m + n)" by simp
  moreover have "\<not> real m + real n < 0" by simp
  ultimately show ?thesis
    using round64_nat [OF assms, of False] by (simp add: valof_def Let_def)
qed

subsection \<open>The energy policy\<close>

lemma energy_zero_step:
  "isZero v \<Longrightarrow> fadd (Finite False 0) (pow2 (fabs v)) = Finite False 0"
  by (auto simp: isZero_def valof_def)

lemma foldl_energy_zero:
  "\<forall>v\<in>set xs. isZero v \<Longrightarrow>
   foldl (\<lambda>energy val. fadd energy (pow2 (fabs val))) (Finite False 0) xs = Finite False 0"
  by (induction xs) (simp_all add: energy_zero_step)

lemma mean_energy_zero:
  assumes "elems inp \<noteq> []" and "\<forall>v\<in>set (elems inp). isZero v"
  shows "computeSignalMeanEnergy inp = Finite False 0"
  using assms
  by (simp add: computeSignalMeanEnergy_def computeSignalEnergy_def foldl_energy_zero
        fdiv_zero_len)

lemma mean_energy_empty:
  assumes "elems inp = []"
  shows "computeSignalMeanEnergy inp = NaN"
  using assms
  by (simp add: computeSignalMeanEnergy_def computeSignalEnergy_def float64_of_len_def
        round64_def)

lemma mean_energy_one: "computeSignalMeanEnergy (Some [Finite False 1]) = Finite False 1"
  by (simp add: computeSignalMeanEnergy_def computeSignalEnergy_def elems_def float64_of_len_def
        valof_def round64_one round_to_def expo_def round_even_def Let_def powr_minus)

text \<open>
  For samples that are whole numbers, of either sign, the energy is the sum of their
  squares and the mean energy its quotient by the number of samples, rounded.
\<close>

lemma foldl_energy_nat:
  "acc + sum_list (map (\<lambda>p. snd p * snd p) xs) < 2 ^ 53 \<Longrightarrow>
   foldl (\<lambda>energy val. fadd energy (pow2 (fabs val))) (Finite False (real acc))
     (map (\<lambda>p. Finite (fst p) (real (snd p))) xs)
   = Finite False (real (acc + sum_list (map (\<lambda>p. snd p * snd p) xs)))"
proof (induction xs arbitrary: acc)
  case Nil
  then show ?case by simp
next
  case (Cons x xs)
  have a: "snd x * snd x < 2 ^ 53" using Cons.prems by simp
  have b: "acc + snd x * snd x < 2 ^ 53" using Cons.prems by simp
  have c: "(acc + snd x * snd x) + sum_list (map (\<lambda>p. snd p * snd p) xs) < 2 ^ 53"
    using Cons.prems by (simp add: add.assoc)
  show ?case
    using Cons.IH [OF c] by (simp add: pow2_nat [OF a] fadd_nat [OF b] add.assoc del: pow2.simps fabs.simps fadd.simps of_nat_add of_nat_mult)
qed

lemma mean_energy_nat:
  assumes "xs \<noteq> []" "length xs < 2 ^ 53" "sum_list (map (\<lambda>p. snd p * snd p) xs) < 2 ^ 53"
  shows "computeSignalMeanEnergy (Some (map (\<lambda>p. Finite (fst p) (real (snd p))) xs))
         = round64 False (real (sum_list (map (\<lambda>p. snd p * snd p) xs)) / real (length xs))"
proof -
  have e: "computeSignalEnergy (Some (map (\<lambda>p. Finite (fst p) (real (snd p))) xs))
           = Finite False (real (sum_list (map (\<lambda>p. snd p * snd p) xs)))"
    using foldl_energy_nat [of 0 xs] assms(3)
    by (simp add: computeSignalEnergy_def elems_def)
  have l: "float64_of_len (length xs) = Finite False (real (length xs))"
    by (simp add: float64_of_len_def round64_nat [OF assms(2)])
  show ?thesis
    using assms(1) by (simp add: computeSignalMeanEnergy_def e l elems_def)
qed

lemma energyArray_axes: "energyArray d = map computeSignalMeanEnergy (axes d)"
  by (simp add: energyArray_def axes_def)

lemma length_axes: "length (axes d) = 18"
  by (simp add: axes_def)

text \<open>The loop sets the long expiry string exactly when some value exceeds the threshold
  of its axis; the counter \<open>j\<close> is the index modulo 3.\<close>

lemma energyLoop_exceeds:
  "j < 3 \<Longrightarrow>
   energyLoop vs j str =
     (if \<exists>i<length vs. fgt (vs ! i) (axisThreshold ((j + i) mod 3))
      then thrExpiryTimeString else str)"
proof (induction vs arbitrary: j str)
  case Nil
  then show ?case by simp
next
  case (Cons val rest)
  let ?j' = "if j + 1 = 3 then 0 else j + 1"
  have j': "?j' < 3" using Cons.prems by simp
  have idx: "(?j' + i) mod 3 = (j + Suc i) mod 3" for i
    using Cons.prems by (auto simp: mod_Suc)
  have hd: "((j = 0 \<and> fgt val (X_thr thr)) \<or> (j = 1 \<and> fgt val (Y_thr thr))
            \<or> (j = 2 \<and> fgt val (Z_thr thr))) = fgt val (axisThreshold (j mod 3))"
    using Cons.prems by (auto simp: axisThreshold_def)
  have ex: "(\<exists>i<length (val # rest). fgt ((val # rest) ! i) (axisThreshold ((j + i) mod 3)))
        = (fgt val (axisThreshold (j mod 3))
           \<or> (\<exists>i<length rest. fgt (rest ! i) (axisThreshold ((j + Suc i) mod 3))))"
    by (auto simp: less_Suc_eq_0_disj)
  show ?case
    unfolding energyLoop.simps Cons.IH [OF j'] hd ex idx
    by auto
qed

lemma energyPolicyLogic_exceeds:
  "energyPolicyLogic now d =
     Inr (if \<exists>i<18. fgt (energyArray d ! i) (axisThreshold (i mod 3))
          then 127200000000 else 31800000000)"
proof -
  have len: "length (energyArray d) = 18" by (simp add: energyArray_def)
  show ?thesis
    unfolding energyPolicyLogic_def
    using energyLoop_exceeds [of 0 "energyArray d" defaultExpiryTimeString]
    by (simp add: len ParseDuration_default ParseDuration_thr)
qed

lemma applyPolicyById_energy:
  "applyPolicyById now d ''signal_energy_policy_v1'' = energyPolicyLogic now d"
  by (simp add: applyPolicyById_def getPolicy_def AvailablePolicies_def examplePolicy_def
        energyPolicy_def applyToChunkData_def)

lemma applyPolicyById_error:
  "applyPolicyById now d pol = Inl e \<Longrightarrow> e = PolicyNotFound \<or> e = DurationError"
  by (auto simp: applyPolicyById_def getPolicy_def AvailablePolicies_def examplePolicy_def
        energyPolicy_def applyToChunkData_def examplePolicyLogic_def energyPolicyLogic_def Let_def
        dest: ParseDuration_error split: if_splits sum.splits option.splits)

subsection \<open>The ledger\<close>

lemma GetState_PutState:
  "GetState (PutState ctx s k v) k' = (if k' = k then Some v else GetState s k')"
  by (simp add: GetState_def PutState_def AList.update_conv')

lemma GetState_DelState:
  "GetState (DelState ctx s k) k' = (if k' = k then None else GetState s k')"
  by (simp add: GetState_def DelState_def AList.delete_conv')

lemma history_PutState:
  "GetHistoryForKey (PutState ctx s k v) k' =
     (if k' = k
      then \<lparr>TxId_km = GetTxID ctx, Timestamp_km = GetTxTimestamp ctx, Value_km = Some v,
             IsDelete_km = False\<rparr> # GetHistoryForKey s k
      else GetHistoryForKey s k')"
  by (simp add: GetHistoryForKey_def PutState_def)

lemma history_DelState:
  "GetHistoryForKey (DelState ctx s k) k' =
     (if k' = k
      then \<lparr>TxId_km = GetTxID ctx, Timestamp_km = GetTxTimestamp ctx, Value_km = None,
             IsDelete_km = True\<rparr> # GetHistoryForKey s k
      else GetHistoryForKey s k')"
  by (simp add: GetHistoryForKey_def DelState_def)

lemma getAssetCreationTime_cases:
  "getAssetCreationTime s k =
     (case GetHistoryForKey s k of [] \<Rightarrow> Inl EmptyHistory | e # es \<Rightarrow> Inr (Timestamp_km e))"
  by (simp add: getAssetCreationTime_def getAssetHistory_def Let_def split: list.splits)

lemma computeExpiryDate_error: "computeExpiryDate s k p = Inl e \<Longrightarrow> e = EmptyHistory"
  by (auto simp: computeExpiryDate_def getAssetCreationTime_def Let_def
           split: sum.splits if_splits)

lemma updateAsset_result:
  "updateAsset ctx s k a = (r, s') \<Longrightarrow>
     (r = Inr () \<and> s' = PutState ctx s k a \<and> ChunkId a = k)
     \<or> (s' = s \<and> (r = Inl IdMismatch \<or> r = Inl NotFound \<or> r = Inl MarshalError))"
  by (auto simp: updateAsset_def readAsset_def jsonMarshal_def
           split: if_splits sum.splits option.splits)

subsection \<open>The public transactions\<close>

text \<open>The loop of \<^verbatim>\<open>GetExpiredChunks\<close> collects every matching record.\<close>

lemma expiredLoop_filter:
  "expiredLoop t kvs acc =
     acc @ filter (\<lambda>a. ExpiryDate a \<noteq> 0 \<and> ExpiryDate a < t) (map snd kvs)"
  by (induction kvs arbitrary: acc) (auto simp: Let_def)

lemma UpdateChunkExpiryDate_success:
  assumes "UpdateChunkExpiryDate ctx s k = (Inr (), s')"
  shows "\<exists>a c. readAsset s k = Inr a \<and> AppliedPolicyId a \<noteq> [] \<and> ExpiryPeriod a \<noteq> 0
           \<and> getAssetCreationTime s k = Inr c \<and> c + ExpiryPeriod a \<noteq> ExpiryDate a
           \<and> ChunkId a = k
           \<and> s' = PutState ctx s k (a\<lparr>ExpiryDate := c + ExpiryPeriod a\<rparr>)"
  using assms
  by (auto simp: UpdateChunkExpiryDate_def updateAssetExpiryDate_def updateAsset_def Let_def
                 jsonMarshal_def
           split: sum.splits if_splits)

lemma UpdateChunkExpiryDate_result:
  assumes "readAsset s k = Inr a" "UpdateChunkExpiryDate ctx s k = (r, s')"
  shows "s' = s \<or> (\<exists>date. r = Inr () \<and> ChunkId a = k \<and>
           s' = PutState ctx s k (a\<lparr>ExpiryDate := date\<rparr>))"
  using assms
  by (auto simp: UpdateChunkExpiryDate_def updateAssetExpiryDate_def Let_def
           split: sum.splits if_splits dest!: updateAsset_result)

lemma ApplyPolicy_result:
  assumes "readAsset s k = Inr a" "ApplyPolicy L now ctx s k enc pol = (r, s')"
  shows "s' = s \<or> (\<exists>date period. r = Inr () \<and> ChunkId a = k \<and>
           s' = PutState ctx s k
                  (a\<lparr>AppliedPolicyId := pol, ExpiryDate := date, ExpiryPeriod := period\<rparr>))"
  using assms
  by (auto simp: ApplyPolicy_def split: sum.splits if_splits dest!: updateAsset_result)

lemma ApplyPolicy_match:
  assumes "readAsset s k = Inr asset" "base64DecodeJson L enc = Inr d" "hash L d = Inr h"
    and "h = DataHash asset"
  shows "fst (ApplyPolicy L now ctx s k enc pol) \<noteq> Inl IntegrityMismatch"
proof
  assume m: "fst (ApplyPolicy L now ctx s k enc pol) = Inl IntegrityMismatch"
  show False
  proof (cases "applyPolicyById now d pol")
    case (Inl e)
    with m assms applyPolicyById_error [OF Inl] show False
      by (auto simp: ApplyPolicy_def)
  next
    case (Inr period)
    show False
    proof (cases "computeExpiryDate s k period")
      case (Inl e)
      with m assms Inr computeExpiryDate_error [OF Inl] show False
        by (auto simp: ApplyPolicy_def)
    next
      case date: (Inr date)
      obtain r s' where u: "updateAsset ctx s k
          (asset\<lparr>AppliedPolicyId := pol, ExpiryDate := date, ExpiryPeriod := period\<rparr>) = (r, s')"
        by (cases "updateAsset ctx s k
          (asset\<lparr>AppliedPolicyId := pol, ExpiryDate := date, ExpiryPeriod := period\<rparr>)") auto
      from m assms Inr date u have "r = Inl IntegrityMismatch"
        by (simp add: ApplyPolicy_def)
      with updateAsset_result [OF u] show False by auto
    qed
  qed
qed

lemma AddChunk_success:
  assumes "AddChunk L ctx s k enc = (Inr (), s')" "base64DecodeJson L enc = Inr d"
  shows "\<exists>h. hash L d = Inr h \<and>
           readAsset s' k = Inr \<lparr>AppliedPolicyId = [], ChunkId = k, DataHash = h,
                                 ExpiryDate = 0, ExpiryPeriod = 0\<rparr>"
  using assms
  by (auto simp: AddChunk_def createAsset_def jsonMarshal_def readAsset_def GetState_PutState
           split: if_splits sum.splits)

subsection \<open>The first loop of the batch\<close>

lemma checkInputs_step:
  "checkInputs L clock s i (x # rest) acc =
     (case checkEntry L (clock i) s x of
        Inl e \<Rightarrow> Inl e
      | Inr a \<Rightarrow> checkInputs L clock s (i + 1) rest (acc @ [a]))"
  by (cases x) (auto simp: checkEntry_def split: sum.splits)

lemma checkEntry_exists: "assetExists s k \<Longrightarrow> checkEntry L now s (k, d, p) = Inl AlreadyExists"
  by (simp add: checkEntry_def)

text \<open>The loop returns the error of the first entry that fails its check.\<close>

lemma checkInputs_first_error:
  "j < length xs \<Longrightarrow> checkEntry L (clock (i + j)) s (xs ! j) = Inl e \<Longrightarrow>
   \<forall>m<j. \<exists>a. checkEntry L (clock (i + m)) s (xs ! m) = Inr a \<Longrightarrow>
   checkInputs L clock s i xs acc = Inl e"
proof (induction xs arbitrary: i j acc)
  case Nil
  then show ?case by simp
next
  case (Cons x rest)
  show ?case
  proof (cases j)
    case 0
    with Cons.prems show ?thesis by (simp add: checkInputs_step)
  next
    case (Suc j')
    from Cons.prems(3) Suc obtain a where a: "checkEntry L (clock i) s x = Inr a"
      by fastforce
    have "checkInputs L clock s (i + 1) rest (acc @ [a]) = Inl e"
    proof (rule Cons.IH [of j'])
      show "j' < length rest" using Cons.prems(1) Suc by simp
      show "checkEntry L (clock (i + 1 + j')) s (rest ! j') = Inl e"
        using Cons.prems(2) Suc by simp
      show "\<forall>m<j'. \<exists>a. checkEntry L (clock (i + 1 + m)) s (rest ! m) = Inr a"
      proof (intro allI impI)
        fix m assume "m < j'"
        then have "Suc m < j" using Suc by simp
        with Cons.prems(3)
        have "\<exists>a. checkEntry L (clock (i + Suc m)) s ((x # rest) ! Suc m) = Inr a"
          by blast
        then show "\<exists>a. checkEntry L (clock (i + 1 + m)) s (rest ! m) = Inr a" by simp
      qed
    qed
    then show ?thesis by (simp add: checkInputs_step a)
  qed
qed

lemma checkInputs_some_error:
  "j < length xs \<Longrightarrow> checkEntry L (clock (i + j)) s (xs ! j) = Inl e \<Longrightarrow>
   \<exists>e'. checkInputs L clock s i xs acc = Inl e'"
proof (induction xs arbitrary: i j acc)
  case Nil
  then show ?case by simp
next
  case (Cons x rest)
  show ?case
  proof (cases "checkEntry L (clock i) s x")
    case (Inl e0)
    then show ?thesis by (simp add: checkInputs_step)
  next
    case (Inr a)
    with Cons.prems obtain j' where j': "j = Suc j'" by (cases j) auto
    have "\<exists>e'. checkInputs L clock s (i + 1) rest (acc @ [a]) = Inl e'"
      using Cons.IH [of j' "i + 1" "acc @ [a]"] Cons.prems j' by simp
    then show ?thesis by (simp add: checkInputs_step Inr)
  qed
qed

lemma checkInputs_all_ok:
  "\<forall>m<length xs. \<exists>a. checkEntry L (clock (i + m)) s (xs ! m) = Inr a \<Longrightarrow>
   \<exists>as. checkInputs L clock s i xs acc = Inr (acc @ as)
        \<and> map Inr as = map (\<lambda>m. checkEntry L (clock (i + m)) s (xs ! m)) [0..<length xs]"
proof (induction xs arbitrary: i acc)
  case Nil
  then show ?case by simp
next
  case (Cons x rest)
  from Cons.prems obtain a where a: "checkEntry L (clock i) s x = Inr a" by fastforce
  have "\<forall>m<length rest. \<exists>a. checkEntry L (clock (i + 1 + m)) s (rest ! m) = Inr a"
  proof (intro allI impI)
    fix m assume "m < length rest"
    then have "Suc m < length (x # rest)" by simp
    with Cons.prems
    have "\<exists>a. checkEntry L (clock (i + Suc m)) s ((x # rest) ! Suc m) = Inr a"
      by blast
    then show "\<exists>a. checkEntry L (clock (i + 1 + m)) s (rest ! m) = Inr a" by simp
  qed
  from Cons.IH [OF this, of "acc @ [a]"]
  obtain as where as: "checkInputs L clock s (i + 1) rest (acc @ [a]) = Inr (acc @ [a] @ as)"
    and m: "map Inr as =
              map (\<lambda>m. checkEntry L (clock (i + 1 + m)) s (rest ! m)) [0..<length rest]"
    by auto
  have "map (\<lambda>m. checkEntry L (clock (i + m)) s ((x # rest) ! m)) [0..<length (x # rest)]
        = checkEntry L (clock i) s x
          # map (\<lambda>m. checkEntry L (clock (i + 1 + m)) s (rest ! m)) [0..<length rest]"
    by (simp add: upt_conv_Cons map_Suc_upt [symmetric] del: upt_Suc)
  then show ?case
    using as m a by (intro exI [of _ "a # as"]) (simp add: checkInputs_step)
qed

subsection \<open>The sample inputs\<close>

lemma decode_zeroEnc: "base64DecodeJson sampleLib zeroEnc = Inr zeroChunk"
  by (simp add: base64DecodeJson_def sampleLib_def)

lemma decode_zeroEncSpaced: "base64DecodeJson sampleLib zeroEncSpaced = Inr zeroChunk"
  by (simp add: base64DecodeJson_def sampleLib_def)

lemma zeroChunk_unitChunk: "unitChunk \<noteq> zeroChunk"
  by (simp add: unitChunk_def zeroChunk_def zeroSensor_def)

lemma decode_unitEnc: "base64DecodeJson sampleLib unitEnc = Inr unitChunk"
  by (simp add: base64DecodeJson_def sampleLib_def unitEnc_def zeroEnc_def zeroEncSpaced_def)

lemma hash_zeroChunk: "hash sampleLib zeroChunk = Inr ''3e54ce97848f7335e70d417d5b7a436e''"
  by (simp add: hash_def md5Hash_def sampleLib_def)

lemma hash_unitChunk: "hash sampleLib unitChunk = Inr ''22603f006f258a4a3e18a7851c078553''"
  by (simp add: hash_def md5Hash_def sampleLib_def zeroChunk_unitChunk unitDoc_def zeroDoc_def)

lemma energyArray_zeroChunk: "energyArray zeroChunk = replicate 18 (Finite False 0)"
  by (simp add: energyArray_def zeroChunk_def zeroSensor_def mean_energy_zero isZero_def
        elems_def numeral_eq_Suc)

lemma energy_zeroChunk: "energyPolicyLogic now zeroChunk = Inr 31800000000"
proof -
  have "\<not> (\<exists>i<18. fgt (energyArray zeroChunk ! i) (axisThreshold (i mod 3)))"
    by (auto simp: energyArray_zeroChunk axisThreshold_def thr_def valof_def)
  then show ?thesis by (simp add: energyPolicyLogic_exceeds)
qed

lemma applyPolicy_zeroChunk:
  "applyPolicyById now zeroChunk ''signal_energy_policy_v1'' = Inr 31800000000"
  by (simp add: applyPolicyById_energy energy_zeroChunk)

lemma energy_unitChunk: "energyPolicyLogic now unitChunk = Inr 127200000000"
proof -
  have "fgt (energyArray unitChunk ! 0) (axisThreshold (0 mod 3))"
    by (simp add: energyArray_def unitChunk_def zeroChunk_def zeroSensor_def mean_energy_one
          axisThreshold_def thr_def valof_def)
  then have "\<exists>i<18. fgt (energyArray unitChunk ! i) (axisThreshold (i mod 3))"
    by (intro exI [of _ 0]) simp
  then show ?thesis by (simp add: energyPolicyLogic_exceeds)
qed

lemma applyPolicy_unitChunk:
  "applyPolicyById now unitChunk ''signal_energy_policy_v1'' = Inr 127200000000"
  by (simp add: applyPolicyById_energy energy_unitChunk)

lemma ledgerPlain_eq:
  "ledgerPlain =
     \<lparr>world = [(''c1'', \<lparr>AppliedPolicyId = [], ChunkId = ''c1'',
                        DataHash = ''3e54ce97848f7335e70d417d5b7a436e'', ExpiryDate = 0,
                        ExpiryPeriod = 0\<rparr>)],
      history = (\<lambda>k. [])(''c1'' :=
        [\<lparr>TxId_km = ''tx1'', Timestamp_km = 63808128000000000000,
          Value_km = Some \<lparr>AppliedPolicyId = [], ChunkId = ''c1'',
                        DataHash = ''3e54ce97848f7335e70d417d5b7a436e'', ExpiryDate = 0,
                        ExpiryPeriod = 0\<rparr>,
          IsDelete_km = False\<rparr>])\<rparr>"
  by (simp add: ledgerPlain_def AddChunk_def assetExists_def GetState_def emptyLedger_def
        decode_zeroEnc hash_zeroChunk createAsset_def jsonMarshal_def PutState_def)

lemma ledgerCreated_eq:
  "ledgerCreated =
     \<lparr>world = [(''c1'', \<lparr>AppliedPolicyId = ''signal_energy_policy_v1'', ChunkId = ''c1'',
                        DataHash = ''3e54ce97848f7335e70d417d5b7a436e'', ExpiryDate = 0,
                        ExpiryPeriod = 31800000000\<rparr>)],
      history = (\<lambda>k. [])(''c1'' :=
        [\<lparr>TxId_km = ''tx1'', Timestamp_km = 63808128000000000000,
          Value_km = Some \<lparr>AppliedPolicyId = ''signal_energy_policy_v1'', ChunkId = ''c1'',
                        DataHash = ''3e54ce97848f7335e70d417d5b7a436e'', ExpiryDate = 0,
                        ExpiryPeriod = 31800000000\<rparr>,
          IsDelete_km = False\<rparr>])\<rparr>"
  by (simp add: ledgerCreated_def AddChunkWithPolicy_def assetExists_def GetState_def
        emptyLedger_def decode_zeroEnc hash_zeroChunk applyPolicy_zeroChunk createAsset_def
        jsonMarshal_def PutState_def)

lemma readAsset_ledgerCreated:
  "readAsset ledgerCreated ''c1'' =
     Inr \<lparr>AppliedPolicyId = ''signal_energy_policy_v1'', ChunkId = ''c1'',
          DataHash = ''3e54ce97848f7335e70d417d5b7a436e'', ExpiryDate = 0,
          ExpiryPeriod = 31800000000\<rparr>"
  by (simp add: readAsset_def GetState_def ledgerCreated_eq)

lemma creationTime_ledgerCreated:
  "getAssetCreationTime ledgerCreated ''c1'' = Inr 63808128000000000000"
  by (simp add: getAssetCreationTime_cases GetHistoryForKey_def ledgerCreated_eq)

lemma ApplyPolicy_ledgerCreated:
  "ApplyPolicy sampleLib 63808128001000000000
     \<lparr>GetTxID = ''tx2'', GetTxTimestamp = 63808128001000000000\<rparr>
     ledgerCreated ''c1'' zeroEncSpaced ''signal_energy_policy_v1''
   = (Inr (), ledgerApplied)"
  by (simp add: ledgerApplied_def ApplyPolicy_def readAsset_ledgerCreated decode_zeroEncSpaced
        hash_zeroChunk applyPolicy_zeroChunk computeExpiryDate_def creationTime_ledgerCreated
        updateAsset_def jsonMarshal_def)

lemma ledgerApplied_eq:
  "ledgerApplied =
     \<lparr>world = [(''c1'', \<lparr>AppliedPolicyId = ''signal_energy_policy_v1'', ChunkId = ''c1'',
                        DataHash = ''3e54ce97848f7335e70d417d5b7a436e'',
                        ExpiryDate = 63808128031800000000, ExpiryPeriod = 31800000000\<rparr>)],
      history = (\<lambda>k. [])(''c1'' :=
        [\<lparr>TxId_km = ''tx1'', Timestamp_km = 63808128000000000000,
          Value_km = Some \<lparr>AppliedPolicyId = ''signal_energy_policy_v1'', ChunkId = ''c1'',
                        DataHash = ''3e54ce97848f7335e70d417d5b7a436e'', ExpiryDate = 0,
                        ExpiryPeriod = 31800000000\<rparr>,
          IsDelete_km = False\<rparr>,
         \<lparr>TxId_km = ''tx2'', Timestamp_km = 63808128001000000000,
          Value_km = Some \<lparr>AppliedPolicyId = ''signal_energy_policy_v1'', ChunkId = ''c1'',
                        DataHash = ''3e54ce97848f7335e70d417d5b7a436e'',
                        ExpiryDate = 63808128031800000000, ExpiryPeriod = 31800000000\<rparr>,
          IsDelete_km = False\<rparr>])\<rparr>"
  by (simp add: ledgerApplied_def ApplyPolicy_def readAsset_ledgerCreated decode_zeroEncSpaced
        hash_zeroChunk applyPolicy_zeroChunk computeExpiryDate_def creationTime_ledgerCreated
        updateAsset_def jsonMarshal_def PutState_def)
     (simp add: ledgerCreated_eq)

lemma DeleteChunkIfExpired_ledgerApplied:
  "DeleteChunkIfExpired 63808128060000000000
     \<lparr>GetTxID = ''tx3'', GetTxTimestamp = 63808128060000000000\<rparr> ledgerApplied ''c1''
   = (Inr (), ledgerDeleted)"
  by (simp add: ledgerDeleted_def DeleteChunkIfExpired_def readAsset_def GetState_def
        ledgerApplied_eq deleteAsset_def assetExists_def)

lemma ledgerDeleted_eq:
  "ledgerDeleted =
     \<lparr>world = [],
      history = (\<lambda>k. [])(''c1'' :=
        [\<lparr>TxId_km = ''tx1'', Timestamp_km = 63808128000000000000,
          Value_km = Some \<lparr>AppliedPolicyId = ''signal_energy_policy_v1'', ChunkId = ''c1'',
                        DataHash = ''3e54ce97848f7335e70d417d5b7a436e'', ExpiryDate = 0,
                        ExpiryPeriod = 31800000000\<rparr>,
          IsDelete_km = False\<rparr>,
         \<lparr>TxId_km = ''tx2'', Timestamp_km = 63808128001000000000,
          Value_km = Some \<lparr>AppliedPolicyId = ''signal_energy_policy_v1'', ChunkId = ''c1'',
                        DataHash = ''3e54ce97848f7335e70d417d5b7a436e'',
                        ExpiryDate = 63808128031800000000, ExpiryPeriod = 31800000000\<rparr>,
          IsDelete_km = False\<rparr>,
         \<lparr>TxId_km = ''tx3'', Timestamp_km = 63808128060000000000,
          Value_km = None, IsDelete_km = True\<rparr>])\<rparr>"
  by (simp add: ledgerDeleted_def DeleteChunkIfExpired_def readAsset_def GetState_def
        ledgerApplied_eq deleteAsset_def assetExists_def DelState_def)

lemma UpdateChunkExpiryDate_ledgerCreated:
  "UpdateChunkExpiryDate \<lparr>GetTxID = ''tx2'', GetTxTimestamp = 63808128001000000000\<rparr>
     ledgerCreated ''c1'' = (Inr (), ledgerUpdated)"
  by (simp add: ledgerUpdated_def UpdateChunkExpiryDate_def readAsset_ledgerCreated
        creationTime_ledgerCreated updateAssetExpiryDate_def updateAsset_def jsonMarshal_def)

lemma ledgerUpdated_eq:
  "ledgerUpdated =
     \<lparr>world = [(''c1'', \<lparr>AppliedPolicyId = ''signal_energy_policy_v1'', ChunkId = ''c1'',
                        DataHash = ''3e54ce97848f7335e70d417d5b7a436e'',
                        ExpiryDate = 63808128031800000000, ExpiryPeriod = 31800000000\<rparr>)],
      history = (\<lambda>k. [])(''c1'' :=
        [\<lparr>TxId_km = ''tx1'', Timestamp_km = 63808128000000000000,
          Value_km = Some \<lparr>AppliedPolicyId = ''signal_energy_policy_v1'', ChunkId = ''c1'',
                        DataHash = ''3e54ce97848f7335e70d417d5b7a436e'', ExpiryDate = 0,
                        ExpiryPeriod = 31800000000\<rparr>,
          IsDelete_km = False\<rparr>,
         \<lparr>TxId_km = ''tx2'', Timestamp_km = 63808128001000000000,
          Value_km = Some \<lparr>AppliedPolicyId = ''signal_energy_policy_v1'', ChunkId = ''c1'',
                        DataHash = ''3e54ce97848f7335e70d417d5b7a436e'',
                        ExpiryDate = 63808128031800000000, ExpiryPeriod = 31800000000\<rparr>,
          IsDelete_km = False\<rparr>])\<rparr>"
  by (simp add: ledgerUpdated_def UpdateChunkExpiryDate_def readAsset_ledgerCreated
        creationTime_ledgerCreated updateAssetExpiryDate_def updateAsset_def jsonMarshal_def
        PutState_def)
     (simp add: ledgerCreated_eq)

section \<open>The claims\<close>

subsection \<open>C1: the cap of GetExpiredChunks\<close>

text \<open>
  Whatever the ledger, \<^verbatim>\<open>GetExpiredChunks\<close> with a cutoff that parses and is not in the
  future returns every record whose \<open>ExpiryDate\<close> is set and before the cutoff: the
  counter that should stop the scan at 30 starts from 0 in every iteration.
\<close>

lemma GetExpiredChunks_all_matching:
  assumes "parseRFC3339 L str = Some cutoff" and "cutoff \<le> now"
  shows "GetExpiredChunks L now s str =
           Inr (filter (\<lambda>a. ExpiryDate a \<noteq> 0 \<and> ExpiryDate a < cutoff)
                  (map snd (GetStateByRange s)))"
  using assms by (simp add: GetExpiredChunks_def expiredLoop_filter)

text \<open>
  C1. For every ledger state and every valid RFC3339 cutoff not in the future,
  \<^verbatim>\<open>GetExpiredChunks(cutoff)\<close> returns at most 30 assets. The code does not: on the ledger
  \<open>ledger31\<close>, whose 31 records all expired in 2013, the query with the cutoff
  2014-11-12T11:45:26.371Z made on 2023-01-01 returns all 31 of them.
\<close>

theorem GetExpiredChunks_returns_31_assets:
  "GetExpiredChunks sampleLib 63808128000000000000 ledger31 ''2014-11-12T11:45:26.371Z''
     = Inr (map expiredAsset [0..<31])
   \<and> length (map expiredAsset [0..<31]) = 31"
  by (simp add: GetExpiredChunks_def sampleLib_def GetStateByRange_def ledger31_def
        expiredLoop_filter filter_map o_def expiredAsset_def)

subsection \<open>C2: creation under an id that exists\<close>

text \<open>
  C2 as stated: creation fails with AlreadyExists whenever a record with that id exists
  in the ledger, live or previously created and later deleted. It is false for a deleted
  record: in \<open>ledgerDeleted\<close> the chunk \<open>c1\<close> was created, given a policy and deleted (its
  history is not empty), and both \<^verbatim>\<open>AddChunk\<close> and \<^verbatim>\<open>AddChunkWithPolicy\<close> create it again.
  For the batch it is also false of a live record: a batch that names the live \<open>c1\<close>
  after an entry whose data does not decode fails with that entry's error.
\<close>

theorem creation_after_delete_succeeds:
  "ChunkExisted ledgerDeleted ''c1'' = Inr True
   \<and> map IsDelete_km (GetHistoryForKey ledgerDeleted ''c1'') = [True, False, False]
   \<and> GetState ledgerDeleted ''c1'' = None
   \<and> fst (AddChunk sampleLib \<lparr>GetTxID = ''tx4'', GetTxTimestamp = 63808128120000000000\<rparr>
            ledgerDeleted ''c1'' zeroEnc) = Inr ()
   \<and> fst (AddChunkWithPolicy sampleLib 63808128120000000000
            \<lparr>GetTxID = ''tx4'', GetTxTimestamp = 63808128120000000000\<rparr>
            ledgerDeleted ''c1'' zeroEnc ''signal_energy_policy_v1'') = Inr ()
   \<and> assetExists ledgerCreated ''c1''
   \<and> fst (AddChunkWithPolicyBatch sampleLib (\<lambda>i. 63808128001000000000)
            \<lparr>GetTxID = ''tx2'', GetTxTimestamp = 63808128001000000000\<rparr>
            ledgerCreated [''c2'', ''c1''] [''?'', zeroEnc]
            [''signal_energy_policy_v1'', ''signal_energy_policy_v1'']) = Inl DecodeError"
proof -
  have "base64DecodeJson sampleLib ''?'' = Inl DecodeError"
    by (simp add: base64DecodeJson_def sampleLib_def zeroEnc_def zeroEncSpaced_def unitEnc_def)
  then have "fst (AddChunkWithPolicyBatch sampleLib (\<lambda>i. 63808128001000000000)
            \<lparr>GetTxID = ''tx2'', GetTxTimestamp = 63808128001000000000\<rparr>
            ledgerCreated [''c2'', ''c1''] [''?'', zeroEnc]
            [''signal_energy_policy_v1'', ''signal_energy_policy_v1'']) = Inl DecodeError"
    by (simp add: AddChunkWithPolicyBatch_def assetExists_def GetState_def ledgerCreated_eq)
  moreover have "assetExists ledgerCreated ''c1''"
    by (simp add: assetExists_def GetState_def ledgerCreated_eq)
  moreover have "ChunkExisted ledgerDeleted ''c1'' = Inr True
   \<and> map IsDelete_km (GetHistoryForKey ledgerDeleted ''c1'') = [True, False, False]
   \<and> GetState ledgerDeleted ''c1'' = None
   \<and> fst (AddChunk sampleLib \<lparr>GetTxID = ''tx4'', GetTxTimestamp = 63808128120000000000\<rparr>
            ledgerDeleted ''c1'' zeroEnc) = Inr ()
   \<and> fst (AddChunkWithPolicy sampleLib 63808128120000000000
            \<lparr>GetTxID = ''tx4'', GetTxTimestamp = 63808128120000000000\<rparr>
            ledgerDeleted ''c1'' zeroEnc ''signal_energy_policy_v1'') = Inr ()"
    by (simp add: ChunkExisted_def getAssetHistory_def GetHistoryForKey_def ledgerDeleted_eq
          AddChunk_def AddChunkWithPolicy_def assetExists_def GetState_def decode_zeroEnc
          hash_zeroChunk applyPolicy_zeroChunk createAsset_def jsonMarshal_def)
  ultimately show ?thesis by simp
qed

text \<open>
  C2, amended. \<^verbatim>\<open>AddChunk\<close> and \<^verbatim>\<open>AddChunkWithPolicy\<close> fail with AlreadyExists, writing
  nothing, whenever a record with that id is live in the world state; the batch variant
  then fails and writes nothing, with AlreadyExists when every earlier entry of the batch
  passes its check. A record that was deleted is not live, and creation under its id
  succeeds again.
\<close>

theorem creation_fails_for_live_id:
  "(assetExists s k \<longrightarrow>
      AddChunk L ctx s k enc = (Inl AlreadyExists, s)
      \<and> AddChunkWithPolicy L now ctx s k enc pol = (Inl AlreadyExists, s))
   \<and> (j < length ids \<and> assetExists s (ids ! j) \<longrightarrow>
      (\<exists>e. AddChunkWithPolicyBatch L clock ctx s ids ds ps = (Inl e, s)))
   \<and> (length ids = length ds \<and> length ids = length ps \<and> j < length ids
        \<and> assetExists s (ids ! j)
        \<and> (\<forall>i<j. \<exists>a. checkEntry L (clock i) s (ids ! i, ds ! i, ps ! i) = Inr a) \<longrightarrow>
      AddChunkWithPolicyBatch L clock ctx s ids ds ps = (Inl AlreadyExists, s))
   \<and> (deleteAsset ctx' s k = (Inr (), s') \<and> base64DecodeJson L enc = Inr d
        \<and> hash L d = Inr h \<longrightarrow>
      \<not> assetExists s' k \<and> fst (AddChunk L ctx s' k enc) = Inr ())"
proof (intro conjI impI)
  assume "assetExists s k"
  then show "AddChunk L ctx s k enc = (Inl AlreadyExists, s)"
    by (simp add: AddChunk_def)
next
  assume "assetExists s k"
  then show "AddChunkWithPolicy L now ctx s k enc pol = (Inl AlreadyExists, s)"
    by (simp add: AddChunkWithPolicy_def)
next
  assume h: "j < length ids \<and> assetExists s (ids ! j)"
  show "\<exists>e. AddChunkWithPolicyBatch L clock ctx s ids ds ps = (Inl e, s)"
  proof (cases "length ids \<noteq> length ds \<or> length ids \<noteq> length ps")
    case True
    then show ?thesis by (auto simp: AddChunkWithPolicyBatch_def)
  next
    case False
    let ?xs = "zip ids (zip ds ps)"
    have j: "j < length ?xs" using h False by simp
    have "checkEntry L (clock (0 + j)) s (?xs ! j) = Inl AlreadyExists"
      using h False by (simp add: checkEntry_exists)
    from checkInputs_some_error [where clock = clock and i = 0 and acc = "[]", OF j this] False
    show ?thesis by (auto simp: AddChunkWithPolicyBatch_def)
  qed
next
  assume h: "length ids = length ds \<and> length ids = length ps \<and> j < length ids
        \<and> assetExists s (ids ! j)
        \<and> (\<forall>i<j. \<exists>a. checkEntry L (clock i) s (ids ! i, ds ! i, ps ! i) = Inr a)"
  let ?xs = "zip ids (zip ds ps)"
  have j: "j < length ?xs" using h by simp
  have e: "checkEntry L (clock (0 + j)) s (?xs ! j) = Inl AlreadyExists"
    using h by (simp add: checkEntry_exists)
  have b: "\<forall>m<j. \<exists>a. checkEntry L (clock (0 + m)) s (?xs ! m) = Inr a"
    using h by simp
  from checkInputs_first_error [where clock = clock and i = 0 and acc = "[]", OF j e b] h
  show "AddChunkWithPolicyBatch L clock ctx s ids ds ps = (Inl AlreadyExists, s)"
    by (simp add: AddChunkWithPolicyBatch_def)
next
  assume h: "deleteAsset ctx' s k = (Inr (), s') \<and> base64DecodeJson L enc = Inr d
        \<and> hash L d = Inr h"
  then have "s' = DelState ctx' s k"
    by (auto simp: deleteAsset_def split: if_splits)
  then show "\<not> assetExists s' k"
    by (simp add: assetExists_def GetState_DelState)
next
  assume h: "deleteAsset ctx' s k = (Inr (), s') \<and> base64DecodeJson L enc = Inr d
        \<and> hash L d = Inr h"
  then have "s' = DelState ctx' s k"
    by (auto simp: deleteAsset_def split: if_splits)
  then have "\<not> assetExists s' k"
    by (simp add: assetExists_def GetState_DelState)
  then show "fst (AddChunk L ctx s' k enc) = Inr ()"
    using h by (simp add: AddChunk_def createAsset_def jsonMarshal_def)
qed

theorem creation_fails_for_live_id_witness:
  "AddChunk sampleLib \<lparr>GetTxID = ''tx2'', GetTxTimestamp = 63808128001000000000\<rparr>
     ledgerCreated ''c1'' unitEnc = (Inl AlreadyExists, ledgerCreated)
   \<and> AddChunkWithPolicyBatch sampleLib (\<lambda>i. 63808128001000000000)
       \<lparr>GetTxID = ''tx2'', GetTxTimestamp = 63808128001000000000\<rparr>
       ledgerCreated [''c1''] [unitEnc] [''signal_energy_policy_v1'']
     = (Inl AlreadyExists, ledgerCreated)
   \<and> fst (AddChunk sampleLib \<lparr>GetTxID = ''tx4'', GetTxTimestamp = 63808128120000000000\<rparr>
            ledgerDeleted ''c1'' unitEnc) = Inr ()"
proof -
  have live: "assetExists ledgerCreated ''c1''"
    by (simp add: assetExists_def GetState_def ledgerCreated_eq)
  have del: "deleteAsset \<lparr>GetTxID = ''tx3'', GetTxTimestamp = 63808128060000000000\<rparr>
               ledgerApplied ''c1'' = (Inr (), ledgerDeleted)"
    using DeleteChunkIfExpired_ledgerApplied
    by (simp add: DeleteChunkIfExpired_def readAsset_def GetState_def ledgerApplied_eq)
  show ?thesis
    using creation_fails_for_live_id
        [where s = ledgerCreated and k = "''c1''" and j = 0 and ids = "[''c1'']"
           and ds = "[unitEnc]" and ps = "[''signal_energy_policy_v1'']"
           and L = sampleLib and enc = unitEnc
           and ctx = "\<lparr>GetTxID = ''tx2'', GetTxTimestamp = 63808128001000000000\<rparr>"
           and clock = "\<lambda>i. 63808128001000000000"]
      creation_fails_for_live_id
        [where s = ledgerApplied and s' = ledgerDeleted and k = "''c1''"
           and L = sampleLib and enc = unitEnc and d = unitChunk
           and h = "''22603f006f258a4a3e18a7851c078553''"
           and ctx' = "\<lparr>GetTxID = ''tx3'', GetTxTimestamp = 63808128060000000000\<rparr>"
           and ctx = "\<lparr>GetTxID = ''tx4'', GetTxTimestamp = 63808128120000000000\<rparr>"]
      live del decode_unitEnc hash_unitChunk
    by simp
qed

subsection \<open>C3: the thresholds of the energy policy\<close>

text \<open>
  C3. For every ChunkData, \<open>signal_energy_policy_v1\<close> computes the 18 per-axis mean signal
  energies (6 channels by 3 axes, the axis chosen by the index modulo 3) and returns the
  long expiry 127200 ms if any of the 18 values strictly exceeds the threshold of its
  axis, and the short expiry 31800 ms otherwise; the thresholds are the float64 values
  nearest to 1.8191607053598602e-6, 1.2442575637320148e-6 and 1.0956301130461567e-6
  (within half a unit in the last place, \<open>2^-73\<close>). The mean energy of a sequence is the
  sum of the squares of its samples divided by their number: for samples that are whole
  numbers of either sign, with the sum of squares and the length below \<open>2^53\<close>, it is that
  quotient rounded to float64, and whole numbers below \<open>2^53\<close> round to themselves. When
  every axis has samples and all of them are zero, every energy is 0 and the result is
  the short expiry.
\<close>

theorem energy_policy_thresholds:
  "applyPolicyById now d ''signal_energy_policy_v1'' = energyPolicyLogic now d
   \<and> energyArray d = map computeSignalMeanEnergy (axes d)
   \<and> length (axes d) = 18
   \<and> energyPolicyLogic now d =
       Inr (if \<exists>i<18. fgt (energyArray d ! i) (axisThreshold (i mod 3))
            then 127200 * 1000000 else 31800 * 1000000)
   \<and> (\<exists>x y z. thr = \<lparr>X_thr = Finite False x, Y_thr = Finite False y, Z_thr = Finite False z\<rparr>
         \<and> \<bar>x - 18191607053598602 / 10 ^ 22\<bar> < 1 / 2 ^ 73
         \<and> \<bar>y - 12442575637320148 / 10 ^ 22\<bar> < 1 / 2 ^ 73
         \<and> \<bar>z - 10956301130461567 / 10 ^ 22\<bar> < 1 / 2 ^ 73)
   \<and> (xs \<noteq> [] \<and> length xs < 2 ^ 53 \<and> sum_list (map (\<lambda>p. snd p * snd p) xs) < 2 ^ 53 \<longrightarrow>
         computeSignalEnergy (Some (map (\<lambda>p. Finite (fst p) (real (snd p))) xs))
           = Finite False (real (sum_list (map (\<lambda>p. snd p * snd p) xs)))
         \<and> computeSignalMeanEnergy (Some (map (\<lambda>p. Finite (fst p) (real (snd p))) xs))
           = round64 False (real (sum_list (map (\<lambda>p. snd p * snd p) xs)) / real (length xs)))
   \<and> (n < 2 ^ 53 \<longrightarrow> round64 False (real n) = Finite False (real n))
   \<and> ((\<forall>ax\<in>set (axes d). elems ax \<noteq> [] \<and> (\<forall>v\<in>set (elems ax). isZero v)) \<longrightarrow>
         (\<forall>e\<in>set (energyArray d). e = Finite False 0)
         \<and> energyPolicyLogic now d = Inr (31800 * 1000000))"
proof (intro conjI impI)
  show "applyPolicyById now d ''signal_energy_policy_v1'' = energyPolicyLogic now d"
    by (rule applyPolicyById_energy)
  show "energyArray d = map computeSignalMeanEnergy (axes d)"
    by (rule energyArray_axes)
  show "length (axes d) = 18"
    by (rule length_axes)
  show "energyPolicyLogic now d =
       Inr (if \<exists>i<18. fgt (energyArray d ! i) (axisThreshold (i mod 3))
            then 127200 * 1000000 else 31800 * 1000000)"
    by (simp add: energyPolicyLogic_exceeds)
  show "\<exists>x y z. thr = \<lparr>X_thr = Finite False x, Y_thr = Finite False y, Z_thr = Finite False z\<rparr>
         \<and> \<bar>x - 18191607053598602 / 10 ^ 22\<bar> < 1 / 2 ^ 73
         \<and> \<bar>y - 12442575637320148 / 10 ^ 22\<bar> < 1 / 2 ^ 73
         \<and> \<bar>z - 10956301130461567 / 10 ^ 22\<bar> < 1 / 2 ^ 73"
  proof (intro exI conjI)
    show "thr = \<lparr>X_thr = Finite False (4295371770972453 / 2 ^ 71),
                  Y_thr = Finite False (1468960053756277 / 2 ^ 70),
                  Z_thr = Finite False (5173966923471851 / 2 ^ 72)\<rparr>"
      by (simp add: thr_def)
    show "\<bar>4295371770972453 / 2 ^ 71 - 18191607053598602 / 10 ^ 22\<bar> < (1 / 2 ^ 73 :: real)"
      by simp
    show "\<bar>1468960053756277 / 2 ^ 70 - 12442575637320148 / 10 ^ 22\<bar> < (1 / 2 ^ 73 :: real)"
      by simp
    show "\<bar>5173966923471851 / 2 ^ 72 - 10956301130461567 / 10 ^ 22\<bar> < (1 / 2 ^ 73 :: real)"
      by simp
  qed
next
  assume h: "xs \<noteq> [] \<and> length xs < 2 ^ 53 \<and> sum_list (map (\<lambda>p. snd p * snd p) xs) < 2 ^ 53"
  show "computeSignalEnergy (Some (map (\<lambda>p. Finite (fst p) (real (snd p))) xs))
           = Finite False (real (sum_list (map (\<lambda>p. snd p * snd p) xs)))"
    using foldl_energy_nat [of 0 xs] h by (simp add: computeSignalEnergy_def elems_def)
  show "computeSignalMeanEnergy (Some (map (\<lambda>p. Finite (fst p) (real (snd p))) xs))
           = round64 False (real (sum_list (map (\<lambda>p. snd p * snd p) xs)) / real (length xs))"
    using h by (intro mean_energy_nat) simp_all
next
  assume "n < 2 ^ 53"
  then show "round64 False (real n) = Finite False (real n)" by (rule round64_nat)
next
  assume z: "\<forall>ax\<in>set (axes d). elems ax \<noteq> [] \<and> (\<forall>v\<in>set (elems ax). isZero v)"
  then show e: "\<forall>e\<in>set (energyArray d). e = Finite False 0"
    by (auto simp: energyArray_axes mean_energy_zero)
  have "\<not> fgt (energyArray d ! i) (axisThreshold (i mod 3))" if "i < 18" for i
  proof -
    have "energyArray d ! i \<in> set (energyArray d)"
      using that by (simp add: energyArray_axes length_axes)
    with e have "energyArray d ! i = Finite False 0" by blast
    then show ?thesis by (simp add: axisThreshold_def thr_def valof_def)
  qed
  then show "energyPolicyLogic now d = Inr (31800 * 1000000)"
    by (simp add: energyPolicyLogic_exceeds)
qed

theorem energy_policy_thresholds_witness:
  "energyPolicyLogic 0 zeroChunk = Inr 31800000000
   \<and> energyArray zeroChunk ! 4 = Finite False 0
   \<and> energyPolicyLogic 0 unitChunk = Inr 127200000000
   \<and> computeSignalEnergy (Some [Finite False 1, Finite True 3]) = Finite False 10
   \<and> computeSignalMeanEnergy (Some [Finite False 1, Finite True 3]) = Finite False 5
   \<and> computeSignalMeanEnergy (Some [Finite True 2, Finite False 3, Finite False 5, Finite True 6,
        Finite False 6]) = Finite False 22
   \<and> energyArray pairChunk ! 5 = Finite False 5
   \<and> energyPolicyLogic 0 pairChunk = Inr 127200000000"
proof -
  have z: "\<forall>ax\<in>set (axes zeroChunk). elems ax \<noteq> [] \<and> (\<forall>v\<in>set (elems ax). isZero v)"
    by (simp add: axes_def zeroChunk_def zeroSensor_def elems_def isZero_def)
  have m: "energyArray zeroChunk ! 4 \<in> set (energyArray zeroChunk)"
    by (simp add: energyArray_def)
  have "fgt (energyArray unitChunk ! 0) (axisThreshold (0 mod 3))"
    by (simp add: energyArray_def unitChunk_def zeroChunk_def zeroSensor_def mean_energy_one
          axisThreshold_def thr_def valof_def)
  then have u: "\<exists>i<18. fgt (energyArray unitChunk ! i) (axisThreshold (i mod 3))"
    by (intro exI [of _ 0]) simp
  have t1: "energyPolicyLogic 0 zeroChunk = Inr (31800 * 1000000)"
    using energy_policy_thresholds [where d = zeroChunk and now = 0] z by blast
  have t2: "\<forall>e\<in>set (energyArray zeroChunk). e = Finite False 0"
    using energy_policy_thresholds [where d = zeroChunk and now = 0] z by blast
  have t3: "energyPolicyLogic 0 unitChunk =
       Inr (if \<exists>i<18. fgt (energyArray unitChunk ! i) (axisThreshold (i mod 3))
            then 127200 * 1000000 else 31800 * 1000000)"
    using energy_policy_thresholds [where d = unitChunk and now = 0] by blast
  have r5: "round64 False (real 5) = Finite False (real 5)"
    using energy_policy_thresholds [where n = 5] by simp
  have r22: "round64 False (real 22) = Finite False (real 22)"
    using energy_policy_thresholds [where n = 22] by simp
  have p2: "computeSignalEnergy (Some [Finite False 1, Finite True 3]) = Finite False 10
      \<and> computeSignalMeanEnergy (Some [Finite False 1, Finite True 3]) = Finite False 5"
    using energy_policy_thresholds [where xs = "[(False, 1), (True, 3)]"] r5 by simp
  have p5: "computeSignalMeanEnergy (Some [Finite True 2, Finite False 3, Finite False 5,
        Finite True 6, Finite False 6]) = Finite False 22"
    using energy_policy_thresholds
        [where xs = "[(True, 2), (False, 3), (False, 5), (True, 6), (False, 6)]"] r22
    by simp
  have e5: "energyArray pairChunk ! 5 = Finite False 5"
    using p2 by (simp add: energyArray_def pairChunk_def zeroChunk_def zeroSensor_def)
  then have "fgt (energyArray pairChunk ! 5) (axisThreshold (5 mod 3))"
    by (simp add: axisThreshold_def thr_def valof_def)
  then have v: "\<exists>i<18. fgt (energyArray pairChunk ! i) (axisThreshold (i mod 3))"
    by (intro exI [of _ 5]) simp
  have t4: "energyPolicyLogic 0 pairChunk =
       Inr (if \<exists>i<18. fgt (energyArray pairChunk ! i) (axisThreshold (i mod 3))
            then 127200 * 1000000 else 31800 * 1000000)"
    using energy_policy_thresholds [where d = pairChunk and now = 0] by blast
  show ?thesis using t1 t2 t3 t4 m u v p2 p5 e5 by simp
qed

subsection \<open>C4: an axis without samples\<close>

text \<open>
  C4. For every ChunkData in which some sensor axis has an empty sample sequence,
  \<open>signal_energy_policy_v1\<close> still returns successfully (it returns one of its two
  durations for every ChunkData): the mean energy of an empty sequence is the division of
  zero by zero, NaN; NaN is not greater than any threshold; and if no other axis exceeds
  its threshold the policy returns the short expiry 31800 ms.
\<close>

theorem energy_policy_empty_axis:
  "(energyPolicyLogic now d = Inr (31800 * 1000000)
      \<or> energyPolicyLogic now d = Inr (127200 * 1000000))
   \<and> (elems ax = [] \<longrightarrow>
        computeSignalMeanEnergy ax = fdiv (Finite False 0) (Finite False 0)
        \<and> computeSignalMeanEnergy ax = NaN)
   \<and> \<not> fgt NaN t
   \<and> ((\<exists>i<18. elems (axes d ! i) = [])
        \<and> (\<forall>i<18. elems (axes d ! i) \<noteq> [] \<longrightarrow>
              \<not> fgt (energyArray d ! i) (axisThreshold (i mod 3))) \<longrightarrow>
        energyPolicyLogic now d = Inr (31800 * 1000000))"
proof (intro conjI impI)
  show "energyPolicyLogic now d = Inr (31800 * 1000000)
      \<or> energyPolicyLogic now d = Inr (127200 * 1000000)"
    by (simp add: energyPolicyLogic_exceeds)
  show "\<not> fgt NaN t" by simp
next
  assume "elems ax = []"
  then show "computeSignalMeanEnergy ax = fdiv (Finite False 0) (Finite False 0)"
    by (simp add: computeSignalMeanEnergy_def computeSignalEnergy_def float64_of_len_def
          round64_zero)
next
  assume "elems ax = []"
  then show "computeSignalMeanEnergy ax = NaN" by (rule mean_energy_empty)
next
  assume h: "(\<exists>i<18. elems (axes d ! i) = [])
        \<and> (\<forall>i<18. elems (axes d ! i) \<noteq> [] \<longrightarrow>
              \<not> fgt (energyArray d ! i) (axisThreshold (i mod 3)))"
  have "\<not> fgt (energyArray d ! i) (axisThreshold (i mod 3))" if i: "i < 18" for i
  proof (cases "elems (axes d ! i) = []")
    case True
    have "energyArray d ! i = computeSignalMeanEnergy (axes d ! i)"
      using i by (simp add: energyArray_axes length_axes)
    then show ?thesis using True by (simp add: mean_energy_empty)
  next
    case False
    with h i show ?thesis by blast
  qed
  then show "energyPolicyLogic now d = Inr (31800 * 1000000)"
    by (simp add: energyPolicyLogic_exceeds)
qed

theorem energy_policy_empty_axis_witness:
  "computeSignalMeanEnergy None = NaN
   \<and> energyArray nilAxisChunk ! 10 = NaN
   \<and> energyPolicyLogic 0 nilAxisChunk = Inr 31800000000"
proof -
  have ax: "elems (axes nilAxisChunk ! 10) = []"
    by (simp add: axes_def nilAxisChunk_def elems_def)
  then have e: "\<exists>i<18. elems (axes nilAxisChunk ! i) = []"
    by (intro exI [of _ 10]) simp
  have vals: "\<forall>v\<in>set (energyArray nilAxisChunk). v = Finite False 0 \<or> v = NaN"
    by (simp add: energyArray_def nilAxisChunk_def zeroChunk_def zeroSensor_def
          mean_energy_zero mean_energy_empty isZero_def elems_def)
  have "\<not> fgt (energyArray nilAxisChunk ! i) (axisThreshold (i mod 3))" if "i < 18" for i
  proof -
    have "energyArray nilAxisChunk ! i \<in> set (energyArray nilAxisChunk)"
      using that by (simp add: energyArray_axes length_axes)
    with vals have "energyArray nilAxisChunk ! i = Finite False 0
        \<or> energyArray nilAxisChunk ! i = NaN"
      by blast
    then show ?thesis by (auto simp: axisThreshold_def thr_def valof_def)
  qed
  then have n: "\<forall>i<18. elems (axes nilAxisChunk ! i) \<noteq> [] \<longrightarrow>
              \<not> fgt (energyArray nilAxisChunk ! i) (axisThreshold (i mod 3))"
    by blast
  have i10: "energyArray nilAxisChunk ! 10 = computeSignalMeanEnergy (axes nilAxisChunk ! 10)"
    by (simp add: energyArray_axes length_axes)
  have el: "elems (None :: float64 slice) = []" by (simp add: elems_def)
  show ?thesis
    using energy_policy_empty_axis [where d = nilAxisChunk and now = 0 and ax = None]
      energy_policy_empty_axis
        [where d = nilAxisChunk and now = 0 and ax = "axes nilAxisChunk ! 10"]
      ax e n i10 el
    by simp
qed

subsection \<open>C5: the integrity check of ApplyPolicy\<close>

text \<open>
  C5. For every existing asset and every well-formed encoded chunk data (it decodes, and
  the decoded data hashes), \<^verbatim>\<open>ApplyPolicy\<close> fails with IntegrityMismatch exactly when the
  hash computed from the supplied decoded chunk data differs from the asset's stored
  \<open>DataHash\<close>, and in that case the ledger is left as it was.
\<close>

theorem ApplyPolicy_integrity_mismatch:
  "readAsset s k = Inr asset \<and> base64DecodeJson L enc = Inr d \<and> hash L d = Inr h \<longrightarrow>
     (fst (ApplyPolicy L now ctx s k enc pol) = Inl IntegrityMismatch
        \<longleftrightarrow> h \<noteq> DataHash asset)
     \<and> (h \<noteq> DataHash asset \<longrightarrow>
          ApplyPolicy L now ctx s k enc pol = (Inl IntegrityMismatch, s))"
proof (intro impI, elim conjE)
  assume a: "readAsset s k = Inr asset" "base64DecodeJson L enc = Inr d" "hash L d = Inr h"
  have 1: "h \<noteq> DataHash asset \<Longrightarrow>
      ApplyPolicy L now ctx s k enc pol = (Inl IntegrityMismatch, s)"
    using a by (auto simp: ApplyPolicy_def)
  have 2: "h = DataHash asset \<Longrightarrow>
      fst (ApplyPolicy L now ctx s k enc pol) \<noteq> Inl IntegrityMismatch"
    using ApplyPolicy_match [OF a] .
  show "(fst (ApplyPolicy L now ctx s k enc pol) = Inl IntegrityMismatch
        \<longleftrightarrow> h \<noteq> DataHash asset)
     \<and> (h \<noteq> DataHash asset \<longrightarrow>
          ApplyPolicy L now ctx s k enc pol = (Inl IntegrityMismatch, s))"
    using 1 2 by auto
qed

theorem ApplyPolicy_integrity_mismatch_witness:
  "ApplyPolicy sampleLib 63808128001000000000
     \<lparr>GetTxID = ''tx2'', GetTxTimestamp = 63808128001000000000\<rparr>
     ledgerCreated ''c1'' unitEnc ''signal_energy_policy_v1''
     = (Inl IntegrityMismatch, ledgerCreated)
   \<and> fst (ApplyPolicy sampleLib 63808128001000000000
        \<lparr>GetTxID = ''tx2'', GetTxTimestamp = 63808128001000000000\<rparr>
        ledgerCreated ''c1'' zeroEncSpaced ''signal_energy_policy_v1'') \<noteq> Inl IntegrityMismatch"
  using ApplyPolicy_integrity_mismatch
      [where s = ledgerCreated and k = "''c1''" and L = sampleLib and enc = unitEnc
         and d = unitChunk and h = "''22603f006f258a4a3e18a7851c078553''"
         and pol = "''signal_energy_policy_v1''" and now = 63808128001000000000
         and ctx = "\<lparr>GetTxID = ''tx2'', GetTxTimestamp = 63808128001000000000\<rparr>"]
    ApplyPolicy_integrity_mismatch
      [where s = ledgerCreated and k = "''c1''" and L = sampleLib and enc = zeroEncSpaced
         and d = zeroChunk and h = "''3e54ce97848f7335e70d417d5b7a436e''"
         and pol = "''signal_energy_policy_v1''" and now = 63808128001000000000
         and ctx = "\<lparr>GetTxID = ''tx2'', GetTxTimestamp = 63808128001000000000\<rparr>"]
    readAsset_ledgerCreated decode_unitEnc hash_unitChunk decode_zeroEncSpaced hash_zeroChunk
  by simp

subsection \<open>C6: the guards of UpdateChunkExpiryDate\<close>

text \<open>
  The two guards hold: \<^verbatim>\<open>UpdateChunkExpiryDate\<close> fails with PolicyNotApplied, writing
  nothing, when \<open>AppliedPolicyId\<close> is empty or \<open>ExpiryPeriod\<close> is zero, and with NoChange
  when the date it computes from \<^verbatim>\<open>getAssetCreationTime\<close> equals the stored one.
\<close>

lemma UpdateChunkExpiryDate_PolicyNotApplied:
  assumes "readAsset s k = Inr a" and "AppliedPolicyId a = [] \<or> ExpiryPeriod a = 0"
  shows "UpdateChunkExpiryDate ctx s k = (Inl PolicyNotApplied, s)"
  using assms by (auto simp: UpdateChunkExpiryDate_def)

lemma UpdateChunkExpiryDate_NoChange:
  assumes "readAsset s k = Inr a" and "AppliedPolicyId a \<noteq> []" and "ExpiryPeriod a \<noteq> 0"
    and "getAssetCreationTime s k = Inr c" and "c + ExpiryPeriod a = ExpiryDate a"
  shows "UpdateChunkExpiryDate ctx s k = (Inl NoChange, s)"
  using assms by (auto simp: UpdateChunkExpiryDate_def)

text \<open>
  C6. \<^verbatim>\<open>UpdateChunkExpiryDate(id)\<close> fails with PolicyNotApplied whenever the asset's
  \<open>AppliedPolicyId\<close> is the empty string or its \<open>ExpiryPeriod\<close> is zero; otherwise it
  recomputes creation time plus \<open>ExpiryPeriod\<close> from the ledger history and fails with
  NoChange when the recomputed date equals the stored \<open>ExpiryDate\<close>, so a second call with
  no policy change in between always fails with NoChange and writes nothing. The code
  does not: \<^verbatim>\<open>getAssetCreationTime\<close> takes the first entry the history iterator yields,
  which is the latest write. For the chunk \<open>c1\<close> created at 2023-01-01T00:00:00Z with the
  energy policy (period 31.8 s), the call one second later succeeds and stores
  00:00:31.8; the second call, one second after the first, reads the timestamp of the
  first call's write, succeeds as well and stores 00:00:32.8.
\<close>

theorem UpdateChunkExpiryDate_second_call_writes:
  "UpdateChunkExpiryDate \<lparr>GetTxID = ''tx2'', GetTxTimestamp = 63808128001000000000\<rparr>
     ledgerCreated ''c1'' = (Inr (), ledgerUpdated)
   \<and> map_sum (\<lambda>e. e) ExpiryDate (readAsset ledgerUpdated ''c1'') = Inr 63808128031800000000
   \<and> map Timestamp_km (history ledgerUpdated ''c1'')
       = [63808128000000000000, 63808128001000000000]
   \<and> getAssetCreationTime ledgerUpdated ''c1'' = Inr 63808128001000000000
   \<and> fst (UpdateChunkExpiryDate \<lparr>GetTxID = ''tx3'', GetTxTimestamp = 63808128002000000000\<rparr>
            ledgerUpdated ''c1'') = Inr ()
   \<and> map_sum (\<lambda>e. e) ExpiryDate
        (readAsset
           (snd (UpdateChunkExpiryDate
                   \<lparr>GetTxID = ''tx3'', GetTxTimestamp = 63808128002000000000\<rparr>
                   ledgerUpdated ''c1'')) ''c1'')
       = Inr 63808128032800000000"
proof -
  have r: "readAsset ledgerUpdated ''c1'' =
      Inr \<lparr>AppliedPolicyId = ''signal_energy_policy_v1'', ChunkId = ''c1'',
           DataHash = ''3e54ce97848f7335e70d417d5b7a436e'', ExpiryDate = 63808128031800000000,
           ExpiryPeriod = 31800000000\<rparr>"
    by (simp add: readAsset_def GetState_def ledgerUpdated_eq)
  have h: "map Timestamp_km (history ledgerUpdated ''c1'')
       = [63808128000000000000, 63808128001000000000]"
    by (simp add: ledgerUpdated_eq)
  have c: "getAssetCreationTime ledgerUpdated ''c1'' = Inr 63808128001000000000"
    by (simp add: getAssetCreationTime_cases GetHistoryForKey_def ledgerUpdated_eq)
  have u: "UpdateChunkExpiryDate \<lparr>GetTxID = ''tx3'', GetTxTimestamp = 63808128002000000000\<rparr>
             ledgerUpdated ''c1''
           = (Inr (), PutState \<lparr>GetTxID = ''tx3'', GetTxTimestamp = 63808128002000000000\<rparr>
                ledgerUpdated ''c1''
                \<lparr>AppliedPolicyId = ''signal_energy_policy_v1'', ChunkId = ''c1'',
                 DataHash = ''3e54ce97848f7335e70d417d5b7a436e'', ExpiryDate = 63808128032800000000,
                 ExpiryPeriod = 31800000000\<rparr>)"
    by (simp add: UpdateChunkExpiryDate_def r c updateAssetExpiryDate_def updateAsset_def
          jsonMarshal_def)
  have e1: "map_sum (\<lambda>e. e) ExpiryDate (readAsset ledgerUpdated ''c1'')
      = Inr 63808128031800000000"
    by (simp add: r)
  have e2: "fst (UpdateChunkExpiryDate
                   \<lparr>GetTxID = ''tx3'', GetTxTimestamp = 63808128002000000000\<rparr>
                   ledgerUpdated ''c1'') = Inr ()"
    by (simp add: u)
  have e3: "map_sum (\<lambda>e. e) ExpiryDate
        (readAsset
           (snd (UpdateChunkExpiryDate
                   \<lparr>GetTxID = ''tx3'', GetTxTimestamp = 63808128002000000000\<rparr>
                   ledgerUpdated ''c1'')) ''c1'')
       = Inr 63808128032800000000"
    unfolding u by (simp add: readAsset_def GetState_PutState)
  show ?thesis
    using UpdateChunkExpiryDate_ledgerCreated e1 h c e2 e3 by blast
qed

subsection \<open>C7: the batch checks every entry before it writes\<close>

text \<open>
  C7. \<^verbatim>\<open>AddChunkWithPolicyBatch\<close> fails with SizeMismatch whenever the three input arrays
  differ in length, and checks every entry (existence, decoding, hash, policy evaluation)
  before writing any: if the check of any entry fails, the batch fails and the ledger is
  left as it was; if every entry passes, the new assets are created in input order. In
  particular a call with arrays of different lengths creates none of the named assets.
\<close>

theorem batch_checks_before_writing:
  "(length ids \<noteq> length ds \<or> length ids \<noteq> length ps \<longrightarrow>
      AddChunkWithPolicyBatch L clock ctx s ids ds ps = (Inl SizeMismatch, s))
   \<and> (length ids = length ds \<and> length ids = length ps \<and> j < length ids
        \<and> checkEntry L (clock j) s (ids ! j, ds ! j, ps ! j) = Inl e \<longrightarrow>
      (\<exists>e'. AddChunkWithPolicyBatch L clock ctx s ids ds ps = (Inl e', s)))
   \<and> (length ids = length ds \<and> length ids = length ps
        \<and> (\<forall>i<length ids. \<exists>a. checkEntry L (clock i) s (ids ! i, ds ! i, ps ! i) = Inr a) \<longrightarrow>
      (\<exists>as. map Inr as =
               map (\<lambda>i. checkEntry L (clock i) s (ids ! i, ds ! i, ps ! i)) [0..<length ids]
            \<and> AddChunkWithPolicyBatch L clock ctx s ids ds ps = createAll ctx s as))"
proof (intro conjI impI)
  assume "length ids \<noteq> length ds \<or> length ids \<noteq> length ps"
  then show "AddChunkWithPolicyBatch L clock ctx s ids ds ps = (Inl SizeMismatch, s)"
    by (auto simp: AddChunkWithPolicyBatch_def)
next
  assume h: "length ids = length ds \<and> length ids = length ps \<and> j < length ids
        \<and> checkEntry L (clock j) s (ids ! j, ds ! j, ps ! j) = Inl e"
  let ?xs = "zip ids (zip ds ps)"
  have ent: "checkEntry L (clock (0 + j)) s (?xs ! j) = Inl e" using h by simp
  have j: "j < length ?xs" using h by simp
  from checkInputs_some_error [where clock = clock and i = 0 and acc = "[]", OF j ent]
  obtain e' where "checkInputs L clock s 0 ?xs [] = Inl e'" by blast
  then show "\<exists>e'. AddChunkWithPolicyBatch L clock ctx s ids ds ps = (Inl e', s)"
    using h by (simp add: AddChunkWithPolicyBatch_def)
next
  assume h: "length ids = length ds \<and> length ids = length ps
        \<and> (\<forall>i<length ids. \<exists>a. checkEntry L (clock i) s (ids ! i, ds ! i, ps ! i) = Inr a)"
  let ?xs = "zip ids (zip ds ps)"
  have len: "length ?xs = length ids" using h by simp
  have all: "\<forall>m<length ?xs. \<exists>a. checkEntry L (clock (0 + m)) s (?xs ! m) = Inr a"
    using h by simp
  from checkInputs_all_ok [where clock = clock and i = 0 and acc = "[]", OF all]
  obtain as where c: "checkInputs L clock s 0 ?xs [] = Inr as"
    and m: "map Inr as = map (\<lambda>m. checkEntry L (clock (0 + m)) s (?xs ! m)) [0..<length ?xs]"
    by auto
  have "map (\<lambda>m. checkEntry L (clock (0 + m)) s (?xs ! m)) [0..<length ?xs]
        = map (\<lambda>i. checkEntry L (clock i) s (ids ! i, ds ! i, ps ! i)) [0..<length ids]"
    using h by (intro map_cong) (auto simp: len)
  with m have "map Inr as =
      map (\<lambda>i. checkEntry L (clock i) s (ids ! i, ds ! i, ps ! i)) [0..<length ids]"
    by simp
  moreover have "AddChunkWithPolicyBatch L clock ctx s ids ds ps = createAll ctx s as"
    using h c by (simp add: AddChunkWithPolicyBatch_def)
  ultimately show "\<exists>as. map Inr as =
               map (\<lambda>i. checkEntry L (clock i) s (ids ! i, ds ! i, ps ! i)) [0..<length ids]
            \<and> AddChunkWithPolicyBatch L clock ctx s ids ds ps = createAll ctx s as"
    by blast
qed

theorem batch_checks_before_writing_witness:
  "AddChunkWithPolicyBatch sampleLib (\<lambda>i. 63808128000000000000)
     \<lparr>GetTxID = ''tx1'', GetTxTimestamp = 63808128000000000000\<rparr>
     emptyLedger [''a'', ''b''] [zeroEnc, unitEnc] [''signal_energy_policy_v1'']
     = (Inl SizeMismatch, emptyLedger)
   \<and> GetState emptyLedger ''a'' = None \<and> GetState emptyLedger ''b'' = None
   \<and> snd (AddChunkWithPolicyBatch sampleLib (\<lambda>i. 63808128000000000000)
        \<lparr>GetTxID = ''tx1'', GetTxTimestamp = 63808128000000000000\<rparr>
        emptyLedger [''a'', ''b''] [zeroEnc, unitEnc] [''signal_energy_policy_v1'', ''p1''])
     = emptyLedger
   \<and> fst (AddChunkWithPolicyBatch sampleLib (\<lambda>i. 63808128000000000000)
        \<lparr>GetTxID = ''tx1'', GetTxTimestamp = 63808128000000000000\<rparr>
        emptyLedger [''a'', ''b''] [zeroEnc, unitEnc]
        [''signal_energy_policy_v1'', ''signal_energy_policy_v1'']) = Inr ()
   \<and> map (\<lambda>kv. (fst kv, ExpiryPeriod (snd kv)))
        (world (snd (AddChunkWithPolicyBatch sampleLib (\<lambda>i. 63808128000000000000)
           \<lparr>GetTxID = ''tx1'', GetTxTimestamp = 63808128000000000000\<rparr>
           emptyLedger [''a'', ''b''] [zeroEnc, unitEnc]
           [''signal_energy_policy_v1'', ''signal_energy_policy_v1''])))
     = [(''a'', 31800000000), (''b'', 127200000000)]"
proof -
  let ?ctx = "\<lparr>GetTxID = ''tx1'', GetTxTimestamp = 63808128000000000000\<rparr>"
  let ?clock = "\<lambda>i :: nat. 63808128000000000000 :: int"
  let ?ids = "[''a'', ''b'']"
  let ?ds = "[zeroEnc, unitEnc]"
  let ?ps = "[''signal_energy_policy_v1'', ''signal_energy_policy_v1'']"
  let ?a = "\<lparr>AppliedPolicyId = ''signal_energy_policy_v1'', ChunkId = ''a'',
             DataHash = ''3e54ce97848f7335e70d417d5b7a436e'', ExpiryDate = 0, ExpiryPeriod = 31800000000\<rparr>"
  let ?b = "\<lparr>AppliedPolicyId = ''signal_energy_policy_v1'', ChunkId = ''b'',
             DataHash = ''22603f006f258a4a3e18a7851c078553'', ExpiryDate = 0, ExpiryPeriod = 127200000000\<rparr>"
  have bad: "checkEntry sampleLib 63808128000000000000 emptyLedger
               (?ids ! 1, ?ds ! 1, [''signal_energy_policy_v1'', ''p1''] ! 1)
             = Inl PolicyNotFound"
    by (simp add: checkEntry_def assetExists_def GetState_def emptyLedger_def decode_unitEnc
          hash_unitChunk applyPolicyById_def getPolicy_def AvailablePolicies_def
          examplePolicy_def energyPolicy_def)
  have ca: "checkEntry sampleLib 63808128000000000000 emptyLedger
              (''a'', zeroEnc, ''signal_energy_policy_v1'') = Inr ?a"
    by (simp add: checkEntry_def assetExists_def GetState_def emptyLedger_def decode_zeroEnc
          hash_zeroChunk applyPolicy_zeroChunk)
  have cb: "checkEntry sampleLib 63808128000000000000 emptyLedger
              (''b'', unitEnc, ''signal_energy_policy_v1'') = Inr ?b"
    by (simp add: checkEntry_def assetExists_def GetState_def emptyLedger_def decode_unitEnc
          hash_unitChunk applyPolicy_unitChunk)
  have good: "\<forall>i<length ?ids. \<exists>a. checkEntry sampleLib (?clock i) emptyLedger
                (?ids ! i, ?ds ! i, ?ps ! i) = Inr a"
    using ca cb by (simp add: less_Suc_eq numeral_2_eq_2)
  have 1: "AddChunkWithPolicyBatch sampleLib ?clock ?ctx emptyLedger
             ?ids ?ds [''signal_energy_policy_v1'']
           = (Inl SizeMismatch, emptyLedger)"
    using batch_checks_before_writing
        [where ids = ?ids and ds = ?ds
           and ps = "[''signal_energy_policy_v1'']" and L = sampleLib and s = emptyLedger
           and ctx = ?ctx and clock = ?clock]
    by simp
  have 2: "\<exists>e'. AddChunkWithPolicyBatch sampleLib ?clock ?ctx emptyLedger
             ?ids ?ds [''signal_energy_policy_v1'', ''p1'']
           = (Inl e', emptyLedger)"
    using batch_checks_before_writing
        [where ids = ?ids and ds = ?ds
           and ps = "[''signal_energy_policy_v1'', ''p1'']" and L = sampleLib
           and s = emptyLedger and ctx = ?ctx and clock = ?clock
           and j = 1 and e = PolicyNotFound]
      bad
    by simp
  have pre: "length ?ids = length ?ds \<and> length ?ids = length ?ps
        \<and> (\<forall>i<length ?ids. \<exists>a. checkEntry sampleLib (?clock i) emptyLedger
                (?ids ! i, ?ds ! i, ?ps ! i) = Inr a)"
    using good by simp
  have "\<exists>as. map Inr as =
               map (\<lambda>i. checkEntry sampleLib (?clock i) emptyLedger (?ids ! i, ?ds ! i, ?ps ! i))
                 [0..<length ?ids]
            \<and> AddChunkWithPolicyBatch sampleLib ?clock ?ctx emptyLedger ?ids ?ds ?ps
                = createAll ?ctx emptyLedger as"
    using batch_checks_before_writing
        [where ids = ?ids and ds = ?ds and ps = ?ps and L = sampleLib
           and s = emptyLedger and ctx = ?ctx and clock = ?clock,
         THEN conjunct2, THEN conjunct2, THEN mp, OF pre] .
  then obtain as where m0: "map Inr as =
               map (\<lambda>i. checkEntry sampleLib (?clock i) emptyLedger (?ids ! i, ?ds ! i, ?ps ! i))
                 [0..<length ?ids]"
    and r: "AddChunkWithPolicyBatch sampleLib ?clock ?ctx emptyLedger ?ids ?ds ?ps
              = createAll ?ctx emptyLedger as"
    by blast
  have "map Inr as = [Inr ?a, Inr ?b :: error + Asset]"
    using m0 ca cb by (simp add: numeral_2_eq_2 upt_rec)
  then have "as = [?a, ?b]" by (auto simp: map_eq_Cons_conv)
  with r have 3: "AddChunkWithPolicyBatch sampleLib ?clock ?ctx emptyLedger ?ids ?ds ?ps
              = createAll ?ctx emptyLedger [?a, ?b]"
    by simp
  have 4: "createAll ?ctx emptyLedger [?a, ?b]
           = (Inr (), PutState ?ctx (PutState ?ctx emptyLedger ''a'' ?a) ''b'' ?b)"
    by (simp add: createAsset_def assetExists_def GetState_PutState jsonMarshal_def)
       (simp add: GetState_def emptyLedger_def)
  have 5: "fst (AddChunkWithPolicyBatch sampleLib ?clock ?ctx emptyLedger ?ids ?ds ?ps) = Inr ()"
    unfolding 3 4 by simp
  have 6: "map (\<lambda>kv. (fst kv, ExpiryPeriod (snd kv)))
             (world (snd (AddChunkWithPolicyBatch sampleLib ?clock ?ctx emptyLedger ?ids ?ds ?ps)))
           = [(''a'', 31800000000), (''b'', 127200000000)]"
    unfolding 3 4 by (simp add: PutState_def emptyLedger_def)
  have 7: "GetState emptyLedger ''a'' = None \<and> GetState emptyLedger ''b'' = None"
    by (simp add: GetState_def emptyLedger_def)
  show ?thesis
    using 1 2 5 6 7 by auto
qed

subsection \<open>C8: the creation time and the expiry date\<close>

text \<open>
  What holds: \<^verbatim>\<open>getAssetCreationTime\<close> fails with EmptyHistory exactly when the history is
  empty, and otherwise returns the timestamp of the first entry the iterator yields;
  \<^verbatim>\<open>computeExpiryDate\<close> adds the period to it. After a write to the key that entry is
  the write itself.
\<close>

lemma getAssetCreationTime_first_yielded:
  "(getAssetCreationTime s k = Inl EmptyHistory \<longleftrightarrow> GetHistoryForKey s k = [])
   \<and> (GetHistoryForKey s k = e # es \<longrightarrow>
        getAssetCreationTime s k = Inr (Timestamp_km e)
        \<and> computeExpiryDate s k period = Inr (Timestamp_km e + period))
   \<and> (GetHistoryForKey s k = [] \<longrightarrow> computeExpiryDate s k period = Inl EmptyHistory)
   \<and> getAssetCreationTime (PutState ctx s k v) k = Inr (GetTxTimestamp ctx)"
  by (auto simp: getAssetCreationTime_cases computeExpiryDate_def history_PutState
        split: list.splits)

text \<open>
  C8. \<^verbatim>\<open>getAssetCreationTime(id)\<close> fails with EmptyHistory exactly when the asset's ledger
  history is empty, and otherwise returns the commit timestamp of the first (oldest)
  history entry; \<^verbatim>\<open>computeExpiryDate(id, period)\<close> returns exactly that creation timestamp
  plus the period. The code does not return the oldest timestamp: it takes \<^verbatim>\<open>h[0]\<close>, the
  first entry the iterator yields, and the iterator yields the newest entry first. The
  chunk \<open>c1\<close> of \<open>ledgerApplied\<close> was created at 2023-01-01T00:00:00Z and written once more
  one second later; its creation time is computed as 00:00:01 and the expiry date for a
  period of 31.8 s as 00:00:32.8.
\<close>

theorem getAssetCreationTime_returns_latest_write:
  "map (\<lambda>e. (TxId_km e, Timestamp_km e)) (history ledgerApplied ''c1'')
     = [(''tx1'', 63808128000000000000), (''tx2'', 63808128001000000000)]
   \<and> map (\<lambda>e. (TxId_km e, Timestamp_km e)) (GetHistoryForKey ledgerApplied ''c1'')
     = [(''tx2'', 63808128001000000000), (''tx1'', 63808128000000000000)]
   \<and> map (\<lambda>r. (TxId r, Timestamp r)) (getAssetHistory ledgerApplied ''c1'')
     = [(''tx2'', 63808128001000000000), (''tx1'', 63808128000000000000)]
   \<and> getAssetCreationTime ledgerApplied ''c1'' = Inr 63808128001000000000
   \<and> computeExpiryDate ledgerApplied ''c1'' 31800000000 = Inr 63808128032800000000"
  by (simp add: getAssetCreationTime_cases computeExpiryDate_def getAssetHistory_def
        GetHistoryForKey_def ledgerApplied_eq)

subsection \<open>C9: what the mutating transactions leave as it is\<close>

text \<open>
  C9. For every existing asset, \<^verbatim>\<open>ApplyPolicy\<close> and \<^verbatim>\<open>UpdateChunkExpiryDate\<close>, whatever they
  return, leave the asset's \<open>ChunkId\<close> and \<open>DataHash\<close> as they were: the asset read after
  \<^verbatim>\<open>ApplyPolicy\<close> differs from the one before in \<open>AppliedPolicyId\<close>, \<open>ExpiryPeriod\<close> and
  \<open>ExpiryDate\<close> at most, and after \<^verbatim>\<open>UpdateChunkExpiryDate\<close> in \<open>ExpiryDate\<close> at most.
\<close>

theorem mutations_keep_id_and_hash:
  "readAsset s k = Inr a \<longrightarrow>
     (ApplyPolicy L now ctx s k enc pol = (r, s') \<longrightarrow>
        (\<exists>a'. readAsset s' k = Inr a' \<and> ChunkId a' = ChunkId a \<and> DataHash a' = DataHash a
           \<and> a'\<lparr>AppliedPolicyId := AppliedPolicyId a, ExpiryDate := ExpiryDate a,
                 ExpiryPeriod := ExpiryPeriod a\<rparr> = a))
     \<and> (UpdateChunkExpiryDate ctx s k = (r, s') \<longrightarrow>
        (\<exists>a'. readAsset s' k = Inr a' \<and> ChunkId a' = ChunkId a \<and> DataHash a' = DataHash a
           \<and> AppliedPolicyId a' = AppliedPolicyId a \<and> ExpiryPeriod a' = ExpiryPeriod a
           \<and> a'\<lparr>ExpiryDate := ExpiryDate a\<rparr> = a))"
proof (intro impI conjI)
  assume a: "readAsset s k = Inr a" and r: "ApplyPolicy L now ctx s k enc pol = (r, s')"
  from ApplyPolicy_result [OF a r]
  show "\<exists>a'. readAsset s' k = Inr a' \<and> ChunkId a' = ChunkId a \<and> DataHash a' = DataHash a
           \<and> a'\<lparr>AppliedPolicyId := AppliedPolicyId a, ExpiryDate := ExpiryDate a,
                 ExpiryPeriod := ExpiryPeriod a\<rparr> = a"
    using a by (auto simp: readAsset_def GetState_PutState)
next
  assume a: "readAsset s k = Inr a" and r: "UpdateChunkExpiryDate ctx s k = (r, s')"
  from UpdateChunkExpiryDate_result [OF a r]
  show "\<exists>a'. readAsset s' k = Inr a' \<and> ChunkId a' = ChunkId a \<and> DataHash a' = DataHash a
           \<and> AppliedPolicyId a' = AppliedPolicyId a \<and> ExpiryPeriod a' = ExpiryPeriod a
           \<and> a'\<lparr>ExpiryDate := ExpiryDate a\<rparr> = a"
    using a by (auto simp: readAsset_def GetState_PutState)
qed

theorem mutations_keep_id_and_hash_witness:
  "map_sum (\<lambda>e. e) DataHash (readAsset ledgerApplied ''c1'') = Inr ''3e54ce97848f7335e70d417d5b7a436e''
   \<and> map_sum (\<lambda>e. e) ChunkId (readAsset ledgerApplied ''c1'') = Inr ''c1''
   \<and> map_sum (\<lambda>e. e) ExpiryDate (readAsset ledgerApplied ''c1'') = Inr 63808128031800000000
   \<and> fst (UpdateChunkExpiryDate \<lparr>GetTxID = ''tx2'', GetTxTimestamp = 63808128001000000000\<rparr>
            ledgerCreated ''c1'') = Inr ()
   \<and> map_sum (\<lambda>e. e) DataHash
        (readAsset (snd (UpdateChunkExpiryDate
                           \<lparr>GetTxID = ''tx2'', GetTxTimestamp = 63808128001000000000\<rparr>
                           ledgerCreated ''c1'')) ''c1'')
      = Inr ''3e54ce97848f7335e70d417d5b7a436e''"
proof -
  let ?ctx2 = "\<lparr>GetTxID = ''tx2'', GetTxTimestamp = 63808128001000000000\<rparr>"
  let ?a = "\<lparr>AppliedPolicyId = ''signal_energy_policy_v1'', ChunkId = ''c1'',
             DataHash = ''3e54ce97848f7335e70d417d5b7a436e'', ExpiryDate = 0, ExpiryPeriod = 31800000000\<rparr>"
  have 1: "\<exists>a'. readAsset ledgerApplied ''c1'' = Inr a'
          \<and> ChunkId a' = ''c1'' \<and> DataHash a' = ''3e54ce97848f7335e70d417d5b7a436e''"
    using mutations_keep_id_and_hash
        [where s = ledgerCreated and k = "''c1''" and L = sampleLib
           and now = 63808128001000000000 and ctx = ?ctx2
           and enc = zeroEncSpaced and pol = "''signal_energy_policy_v1''"
           and r = "Inr ()" and s' = ledgerApplied and a = ?a]
      readAsset_ledgerCreated ApplyPolicy_ledgerCreated
    by auto
  have 2: "map_sum (\<lambda>e. e) ExpiryDate (readAsset ledgerApplied ''c1'')
      = Inr 63808128031800000000"
    by (simp add: readAsset_def GetState_def ledgerApplied_eq)
  have ok: "fst (UpdateChunkExpiryDate ?ctx2 ledgerCreated ''c1'') = Inr ()"
    by (simp add: UpdateChunkExpiryDate_def readAsset_ledgerCreated creationTime_ledgerCreated
          updateAssetExpiryDate_def updateAsset_def jsonMarshal_def)
  have 3: "\<exists>a'. readAsset (snd (UpdateChunkExpiryDate ?ctx2 ledgerCreated ''c1'')) ''c1''
               = Inr a' \<and> DataHash a' = ''3e54ce97848f7335e70d417d5b7a436e''"
    using mutations_keep_id_and_hash
        [where s = ledgerCreated and k = "''c1''" and ctx = ?ctx2
           and r = "fst (UpdateChunkExpiryDate ?ctx2 ledgerCreated ''c1'')"
           and s' = "snd (UpdateChunkExpiryDate ?ctx2 ledgerCreated ''c1'')" and a = ?a,
         THEN mp, OF readAsset_ledgerCreated, THEN conjunct2, THEN mp,
         OF prod.collapse [symmetric]]
    by auto
  show ?thesis using 1 2 3 ok by auto
qed

subsection \<open>C10: the hash is a function of the decoded value\<close>

text \<open>
  C10. The stored \<open>DataHash\<close> is a function of the decoded ChunkData value, not of the
  submitted bytes: it is the MD5 digest of the JSON that \<^verbatim>\<open>json.Marshal\<close> writes for the
  decoded structure. Two encoded inputs that decode to the same ChunkData give the same
  result of creation; when the id is free and the decoded value marshals, creation
  succeeds and stores that digest; and \<^verbatim>\<open>ApplyPolicy\<close> with a second encoding of the data
  the chunk was created from passes the integrity check and goes on to the policy and to
  the update of the asset, which succeeds when the new expiry date can be marshalled.
\<close>

theorem hash_of_decoded_value:
  "base64DecodeJson L encA = Inr d \<and> base64DecodeJson L encB = Inr d \<longrightarrow>
     AddChunk L ctx s k encA = AddChunk L ctx s k encB
     \<and> AddChunkWithPolicy L now ctx s k encA pol = AddChunkWithPolicy L now ctx s k encB pol
     \<and> (jsonMarshalChunk L d = Some dataJSON \<longrightarrow> hash L d = Inr (md5Sum L dataJSON))
     \<and> (jsonMarshalChunk L d = Some dataJSON \<and> GetState s k = None \<longrightarrow>
          AddChunk L ctx s k encA
            = (Inr (), PutState ctx s k
                 \<lparr>AppliedPolicyId = [], ChunkId = k, DataHash = md5Sum L dataJSON,
                  ExpiryDate = 0, ExpiryPeriod = 0\<rparr>)
          \<and> readAsset (snd (AddChunk L ctx s k encA)) k
            = Inr \<lparr>AppliedPolicyId = [], ChunkId = k, DataHash = md5Sum L dataJSON,
                   ExpiryDate = 0, ExpiryPeriod = 0\<rparr>)
     \<and> (jsonMarshalChunk L d = Some dataJSON \<and> GetState s k = None
          \<and> applyPolicyById now d pol = Inr p \<longrightarrow>
          ApplyPolicy L now ctx' (snd (AddChunk L ctx s k encA)) k encB pol
            = updateAsset ctx' (snd (AddChunk L ctx s k encA)) k
                \<lparr>AppliedPolicyId = pol, ChunkId = k, DataHash = md5Sum L dataJSON,
                 ExpiryDate = GetTxTimestamp ctx + p, ExpiryPeriod = p\<rparr>)
     \<and> (jsonMarshalChunk L d = Some dataJSON \<and> GetState s k = None
          \<and> applyPolicyById now d pol = Inr p
          \<and> jsonMarshal \<lparr>AppliedPolicyId = pol, ChunkId = k, DataHash = md5Sum L dataJSON,
                          ExpiryDate = GetTxTimestamp ctx + p, ExpiryPeriod = p\<rparr>
              = Inr \<lparr>AppliedPolicyId = pol, ChunkId = k, DataHash = md5Sum L dataJSON,
                     ExpiryDate = GetTxTimestamp ctx + p, ExpiryPeriod = p\<rparr> \<longrightarrow>
          fst (ApplyPolicy L now ctx' (snd (AddChunk L ctx s k encA)) k encB pol) = Inr ()
          \<and> readAsset (snd (ApplyPolicy L now ctx' (snd (AddChunk L ctx s k encA)) k encB pol)) k
            = Inr \<lparr>AppliedPolicyId = pol, ChunkId = k, DataHash = md5Sum L dataJSON,
                   ExpiryDate = GetTxTimestamp ctx + p, ExpiryPeriod = p\<rparr>)
     \<and> (AddChunk L ctx s k encA = (Inr (), s') \<longrightarrow>
          (\<exists>a dataJSON. readAsset s' k = Inr a \<and> jsonMarshalChunk L d = Some dataJSON
                \<and> DataHash a = md5Sum L dataJSON)
          \<and> fst (ApplyPolicy L now ctx' s' k encB pol) \<noteq> Inl IntegrityMismatch)"
proof (intro impI, elim conjE)
  assume d: "base64DecodeJson L encA = Inr d" "base64DecodeJson L encB = Inr d"
  let ?a0 = "\<lparr>AppliedPolicyId = [], ChunkId = k, DataHash = md5Sum L dataJSON,
              ExpiryDate = 0, ExpiryPeriod = 0\<rparr>"
  let ?a1 = "\<lparr>AppliedPolicyId = pol, ChunkId = k, DataHash = md5Sum L dataJSON,
              ExpiryDate = GetTxTimestamp ctx + p, ExpiryPeriod = p\<rparr>"
  let ?s1 = "snd (AddChunk L ctx s k encA)"
  have 1: "AddChunk L ctx s k encA = AddChunk L ctx s k encB"
    by (simp add: AddChunk_def d)
  have 2: "AddChunkWithPolicy L now ctx s k encA pol = AddChunkWithPolicy L now ctx s k encB pol"
    by (simp add: AddChunkWithPolicy_def d)
  have 3: "hash L d = Inr (md5Sum L dataJSON)" if "jsonMarshalChunk L d = Some dataJSON"
    using that by (simp add: hash_def md5Hash_def)
  have 4: "AddChunk L ctx s k encA = (Inr (), PutState ctx s k ?a0)"
    if "jsonMarshalChunk L d = Some dataJSON" "GetState s k = None"
    using that d by (simp add: AddChunk_def assetExists_def 3 createAsset_def jsonMarshal_def)
  have 5: "readAsset ?s1 k = Inr ?a0"
    if "jsonMarshalChunk L d = Some dataJSON" "GetState s k = None"
    using 4 [OF that] by (simp add: readAsset_def GetState_PutState)
  have 6: "ApplyPolicy L now ctx' ?s1 k encB pol = updateAsset ctx' ?s1 k ?a1"
    if m: "jsonMarshalChunk L d = Some dataJSON" and f: "GetState s k = None"
      and q: "applyPolicyById now d pol = Inr p"
  proof -
    have "getAssetCreationTime ?s1 k = Inr (GetTxTimestamp ctx)"
      using 4 [OF m f] by (simp add: getAssetCreationTime_cases history_PutState)
    then show ?thesis
      using 5 [OF m f] d 3 [OF m] q by (simp add: ApplyPolicy_def computeExpiryDate_def)
  qed
  have 7: "ApplyPolicy L now ctx' ?s1 k encB pol = (Inr (), PutState ctx' ?s1 k ?a1)"
    if m: "jsonMarshalChunk L d = Some dataJSON" and f: "GetState s k = None"
      and q: "applyPolicyById now d pol = Inr p" and j: "jsonMarshal ?a1 = Inr ?a1"
    using 6 [OF m f q] 5 [OF m f] j by (simp add: updateAsset_def)
  have 8: "(\<exists>a dataJSON. readAsset s' k = Inr a \<and> jsonMarshalChunk L d = Some dataJSON
                \<and> DataHash a = md5Sum L dataJSON)
          \<and> fst (ApplyPolicy L now ctx' s' k encB pol) \<noteq> Inl IntegrityMismatch"
    if ok: "AddChunk L ctx s k encA = (Inr (), s')"
  proof -
    from AddChunk_success [OF ok d(1)] obtain h where h: "hash L d = Inr h"
      and r: "readAsset s' k = Inr \<lparr>AppliedPolicyId = [], ChunkId = k, DataHash = h,
                                    ExpiryDate = 0, ExpiryPeriod = 0\<rparr>"
      by blast
    from h obtain j where "jsonMarshalChunk L d = Some j" "h = md5Sum L j"
      by (auto simp: hash_def md5Hash_def split: option.splits)
    then have "\<exists>a dataJSON. readAsset s' k = Inr a \<and> jsonMarshalChunk L d = Some dataJSON
                \<and> DataHash a = md5Sum L dataJSON"
      using r by simp
    moreover have "fst (ApplyPolicy L now ctx' s' k encB pol) \<noteq> Inl IntegrityMismatch"
      using ApplyPolicy_match [OF r d(2) h] by simp
    ultimately show ?thesis by blast
  qed
  show "AddChunk L ctx s k encA = AddChunk L ctx s k encB
     \<and> AddChunkWithPolicy L now ctx s k encA pol = AddChunkWithPolicy L now ctx s k encB pol
     \<and> (jsonMarshalChunk L d = Some dataJSON \<longrightarrow> hash L d = Inr (md5Sum L dataJSON))
     \<and> (jsonMarshalChunk L d = Some dataJSON \<and> GetState s k = None \<longrightarrow>
          AddChunk L ctx s k encA = (Inr (), PutState ctx s k ?a0)
          \<and> readAsset ?s1 k = Inr ?a0)
     \<and> (jsonMarshalChunk L d = Some dataJSON \<and> GetState s k = None
          \<and> applyPolicyById now d pol = Inr p \<longrightarrow>
          ApplyPolicy L now ctx' ?s1 k encB pol = updateAsset ctx' ?s1 k ?a1)
     \<and> (jsonMarshalChunk L d = Some dataJSON \<and> GetState s k = None
          \<and> applyPolicyById now d pol = Inr p \<and> jsonMarshal ?a1 = Inr ?a1 \<longrightarrow>
          fst (ApplyPolicy L now ctx' ?s1 k encB pol) = Inr ()
          \<and> readAsset (snd (ApplyPolicy L now ctx' ?s1 k encB pol)) k = Inr ?a1)
     \<and> (AddChunk L ctx s k encA = (Inr (), s') \<longrightarrow>
          (\<exists>a dataJSON. readAsset s' k = Inr a \<and> jsonMarshalChunk L d = Some dataJSON
                \<and> DataHash a = md5Sum L dataJSON)
          \<and> fst (ApplyPolicy L now ctx' s' k encB pol) \<noteq> Inl IntegrityMismatch)"
    using 1 2 3 4 5 6 7 8 by (simp add: readAsset_def GetState_PutState)
qed

theorem hash_of_decoded_value_witness:
  "zeroEnc \<noteq> zeroEncSpaced
   \<and> jsonMarshalChunk sampleLib zeroChunk = Some zeroDoc
   \<and> md5Sum sampleLib zeroDoc = ''3e54ce97848f7335e70d417d5b7a436e''
   \<and> AddChunk sampleLib \<lparr>GetTxID = ''tx1'', GetTxTimestamp = 63808128000000000000\<rparr>
        emptyLedger ''c1'' zeroEnc = (Inr (), ledgerPlain)
   \<and> AddChunk sampleLib \<lparr>GetTxID = ''tx1'', GetTxTimestamp = 63808128000000000000\<rparr>
        emptyLedger ''c1'' zeroEncSpaced = (Inr (), ledgerPlain)
   \<and> readAsset ledgerPlain ''c1''
       = Inr \<lparr>AppliedPolicyId = [], ChunkId = ''c1'', DataHash = ''3e54ce97848f7335e70d417d5b7a436e'',
              ExpiryDate = 0, ExpiryPeriod = 0\<rparr>
   \<and> fst (ApplyPolicy sampleLib 63808128001000000000
        \<lparr>GetTxID = ''tx2'', GetTxTimestamp = 63808128001000000000\<rparr>
        ledgerPlain ''c1'' zeroEncSpaced ''signal_energy_policy_v1'') = Inr ()
   \<and> readAsset (snd (ApplyPolicy sampleLib 63808128001000000000
        \<lparr>GetTxID = ''tx2'', GetTxTimestamp = 63808128001000000000\<rparr>
        ledgerPlain ''c1'' zeroEncSpaced ''signal_energy_policy_v1'')) ''c1''
       = Inr \<lparr>AppliedPolicyId = ''signal_energy_policy_v1'', ChunkId = ''c1'',
              DataHash = ''3e54ce97848f7335e70d417d5b7a436e'', ExpiryDate = 63808128031800000000,
              ExpiryPeriod = 31800000000\<rparr>
   \<and> ApplyPolicy sampleLib 63808128001000000000
        \<lparr>GetTxID = ''tx2'', GetTxTimestamp = 63808128001000000000\<rparr>
        ledgerPlain ''c1'' unitEnc ''signal_energy_policy_v1''
       = (Inl IntegrityMismatch, ledgerPlain)"
proof -
  let ?ctx1 = "\<lparr>GetTxID = ''tx1'', GetTxTimestamp = 63808128000000000000\<rparr>"
  let ?ctx2 = "\<lparr>GetTxID = ''tx2'', GetTxTimestamp = 63808128001000000000\<rparr>"
  let ?pol = "''signal_energy_policy_v1''"
  note inst = hash_of_decoded_value
        [where L = sampleLib and encA = zeroEnc and encB = zeroEncSpaced and d = zeroChunk
           and ctx = ?ctx1 and s = emptyLedger and k = "''c1''"
           and now = 63808128001000000000 and pol = ?pol and ctx' = ?ctx2
           and dataJSON = zeroDoc and p = 31800000000,
         THEN mp, OF conjI, OF decode_zeroEnc decode_zeroEncSpaced]
  have ne: "zeroEnc \<noteq> zeroEncSpaced"
    by (simp add: zeroEnc_def zeroEncSpaced_def)
  have mj: "jsonMarshalChunk sampleLib zeroChunk = Some zeroDoc"
    by (simp add: sampleLib_def)
  have md: "md5Sum sampleLib zeroDoc = ''3e54ce97848f7335e70d417d5b7a436e''"
    by (simp add: sampleLib_def)
  have free: "GetState emptyLedger ''c1'' = None"
    by (simp add: GetState_def emptyLedger_def)
  have pol: "applyPolicyById 63808128001000000000 zeroChunk ?pol = Inr 31800000000"
    by (rule applyPolicy_zeroChunk)
  have jm: "jsonMarshal \<lparr>AppliedPolicyId = ?pol, ChunkId = ''c1'',
                         DataHash = md5Sum sampleLib zeroDoc,
                         ExpiryDate = GetTxTimestamp ?ctx1 + 31800000000,
                         ExpiryPeriod = 31800000000\<rparr>
            = Inr \<lparr>AppliedPolicyId = ?pol, ChunkId = ''c1'',
                   DataHash = md5Sum sampleLib zeroDoc,
                   ExpiryDate = GetTxTimestamp ?ctx1 + 31800000000,
                   ExpiryPeriod = 31800000000\<rparr>"
    by (simp add: jsonMarshal_def)
  have same: "AddChunk sampleLib ?ctx1 emptyLedger ''c1'' zeroEnc
              = AddChunk sampleLib ?ctx1 emptyLedger ''c1'' zeroEncSpaced"
    using inst by blast
  have add: "AddChunk sampleLib ?ctx1 emptyLedger ''c1'' zeroEnc
             = (Inr (), PutState ?ctx1 emptyLedger ''c1''
                  \<lparr>AppliedPolicyId = [], ChunkId = ''c1'', DataHash = md5Sum sampleLib zeroDoc,
                   ExpiryDate = 0, ExpiryPeriod = 0\<rparr>)"
    using inst mj free by blast
  then have run: "AddChunk sampleLib ?ctx1 emptyLedger ''c1'' zeroEnc = (Inr (), ledgerPlain)"
    by (simp add: ledgerPlain_def)
  then have sp: "snd (AddChunk sampleLib ?ctx1 emptyLedger ''c1'' zeroEnc) = ledgerPlain"
    by simp
  have rd: "readAsset (snd (AddChunk sampleLib ?ctx1 emptyLedger ''c1'' zeroEnc)) ''c1''
            = Inr \<lparr>AppliedPolicyId = [], ChunkId = ''c1'', DataHash = md5Sum sampleLib zeroDoc,
                   ExpiryDate = 0, ExpiryPeriod = 0\<rparr>"
    using inst mj free by blast
  have ap: "fst (ApplyPolicy sampleLib 63808128001000000000 ?ctx2
                   (snd (AddChunk sampleLib ?ctx1 emptyLedger ''c1'' zeroEnc)) ''c1''
                   zeroEncSpaced ?pol) = Inr ()
        \<and> readAsset (snd (ApplyPolicy sampleLib 63808128001000000000 ?ctx2
                   (snd (AddChunk sampleLib ?ctx1 emptyLedger ''c1'' zeroEnc)) ''c1''
                   zeroEncSpaced ?pol)) ''c1''
          = Inr \<lparr>AppliedPolicyId = ?pol, ChunkId = ''c1'', DataHash = md5Sum sampleLib zeroDoc,
                 ExpiryDate = GetTxTimestamp ?ctx1 + 31800000000,
                 ExpiryPeriod = 31800000000\<rparr>"
    using inst mj free pol jm by blast
  have mis: "ApplyPolicy sampleLib 63808128001000000000 ?ctx2 ledgerPlain ''c1'' unitEnc ?pol
             = (Inl IntegrityMismatch, ledgerPlain)"
    using rd by (simp add: sp md ApplyPolicy_def decode_unitEnc hash_unitChunk)
  show ?thesis
    using ne mj md run same rd ap mis by (simp add: sp)
qed

end
